theory Spec2Isabelle
  imports Main "HOL-Library.Word"
begin

section \<open>Common types\<close>

type_synonym byte = "8 word"
type_synonym uint32 = "32 word"
type_synonym uint64 = "64 word"

text \<open>A \<open>bitcoin.Hash32\<close> is a 32 byte array; it is only compared and copied here.\<close>

type_synonym Hash32 = "byte list"

text \<open>\<open>time.Time\<close> values are only stored, never inspected: a natural number of nanoseconds.\<close>

type_synonym Time = nat

section \<open>TxTracker (package data)\<close>

text \<open>
  \<^verbatim>\<open>type TxTracker struct { txids map[bitcoin.Hash32]time.Time; mutex sync.Mutex }\<close>
  Every method holds the mutex for its whole body, so each method is one atomic step on the
  map; the mutex itself is not part of the state.
\<close>

record TxTracker =
  txids :: "Hash32 \<rightharpoonup> Time"

definition NewTxTracker :: TxTracker where
  "NewTxTracker = \<lparr>txids = Map.empty\<rparr>"

text \<open>\<open>Add\<close>: the clock reading of \<open>time.Now()\<close> is the parameter \<open>now\<close>.\<close>

definition Add :: "Time \<Rightarrow> Hash32 \<Rightarrow> TxTracker \<Rightarrow> TxTracker" where
  "Add now txid tracker =
     (case txids tracker txid of
        Some _ \<Rightarrow> tracker
      | None \<Rightarrow> tracker\<lparr>txids := (txids tracker)(txid \<mapsto> now)\<rparr>)"

fun Remove :: "Hash32 list \<Rightarrow> TxTracker \<Rightarrow> TxTracker" where
  "Remove [] tracker = tracker"
| "Remove (removeid # rest) tracker =
     (case txids tracker removeid of
        Some _ \<Rightarrow> Remove rest (tracker\<lparr>txids := (txids tracker)(removeid := None)\<rparr>)
      | None \<Rightarrow> Remove rest tracker)"

subsection \<open>Wire messages\<close>

datatype InvType = InvTypeError | InvTypeTx | InvTypeBlock

record InvVect =
  Type :: InvType
  Hash :: Hash32

record MsgGetData =
  InvList :: "InvVect list"

definition NewInvVect :: "InvType \<Rightarrow> Hash32 \<Rightarrow> InvVect" where
  "NewInvVect typ hash = \<lparr>Type = typ, Hash = hash\<rparr>"

definition NewMsgGetData :: MsgGetData where
  "NewMsgGetData = \<lparr>InvList = []\<rparr>"

text \<open>
  Modelled from the spec: \<open>wire.MsgGetData.AddInvVect\<close> (package \<open>pkg/wire\<close>) is not among the
  sources. The specification says that get-data messages have a bounded number of items per
  wire message and that adding fails when it would overflow. The bound \<open>MaxInvPerMsg\<close> is the
  parameter \<open>maxInv\<close>.
\<close>

definition AddInvVect :: "nat \<Rightarrow> MsgGetData \<Rightarrow> InvVect \<Rightarrow> string + MsgGetData" where
  "AddInvVect maxInv msg iv =
     (if length (InvList msg) + 1 > maxInv then Inl ''too many invvect in message''
      else Inr (msg\<lparr>InvList := InvList msg @ [iv]\<rparr>))"

subsection \<open>Check\<close>

text \<open>
  \<open>MemPool.AddRequest\<close> is not among the sources; it is the parameter \<open>AddRequest\<close>, a
  state transformer on an arbitrary mempool state that answers \<open>(alreadyHave, shouldRequest)\<close>.

  \<open>for txid, _ := range tracker.txids\<close> visits the keys of a Go map in an unspecified order.
  The order of one sweep is the parameter \<open>ks\<close>; \<open>range_order\<close> says that it lists every key
  once. Deleting the current key inside the loop does not change which other keys are visited.

  The loop state of \<open>Check_loop\<close> is the tracker, the mempool, \<open>response\<close> and \<open>invRequest\<close>.
  Its result carries the error of the early \<open>return response, err\<close>, if any.
\<close>

definition range_order :: "('k \<rightharpoonup> 'v) \<Rightarrow> 'k list \<Rightarrow> bool" where
  "range_order m ks \<longleftrightarrow> distinct ks \<and> set ks = dom m"

type_synonym 'mp AddRequest = "'mp \<Rightarrow> Hash32 \<Rightarrow> (bool \<times> bool) \<times> 'mp"

fun Check_loop ::
  "'mp AddRequest \<Rightarrow> nat \<Rightarrow> Hash32 list \<Rightarrow> TxTracker \<Rightarrow> 'mp \<Rightarrow> MsgGetData list \<Rightarrow> MsgGetData
     \<Rightarrow> MsgGetData list \<times> MsgGetData \<times> string option \<times> TxTracker \<times> 'mp" where
  "Check_loop AddRequest maxInv [] tracker mempool response invRequest =
     (response, invRequest, None, tracker, mempool)"
| "Check_loop AddRequest maxInv (txid # rest) tracker mempool response invRequest =
     (case AddRequest mempool txid of
        ((alreadyHave, shouldRequest), mempool') \<Rightarrow>
          if alreadyHave then
            Check_loop AddRequest maxInv rest
              (tracker\<lparr>txids := (txids tracker)(txid := None)\<rparr>) mempool' response invRequest
          else if shouldRequest then
            (let item = NewInvVect InvTypeTx txid in
             case AddInvVect maxInv invRequest item of
               Inl err \<Rightarrow>
                 (let response' = response @ [invRequest] in
                  case AddInvVect maxInv NewMsgGetData item of
                    Inl err' \<Rightarrow>
                      (response', NewMsgGetData,
                       Some ''Failed to add tx to get data request'', tracker, mempool')
                  | Inr invRequest' \<Rightarrow>
                      Check_loop AddRequest maxInv rest
                        (tracker\<lparr>txids := (txids tracker)(txid := None)\<rparr>) mempool'
                        response' invRequest')
             | Inr invRequest' \<Rightarrow>
                 Check_loop AddRequest maxInv rest
                   (tracker\<lparr>txids := (txids tracker)(txid := None)\<rparr>) mempool'
                   response invRequest')
          else
            Check_loop AddRequest maxInv rest tracker mempool' response invRequest)"

definition Check ::
  "'mp AddRequest \<Rightarrow> nat \<Rightarrow> Hash32 list \<Rightarrow> TxTracker \<Rightarrow> 'mp
     \<Rightarrow> (MsgGetData list \<times> string option) \<times> TxTracker \<times> 'mp" where
  "Check AddRequest maxInv ks tracker mempool =
     (case Check_loop AddRequest maxInv ks tracker mempool [] NewMsgGetData of
        (response, invRequest, err, tracker', mempool') \<Rightarrow>
          (case err of
             Some e \<Rightarrow> ((response, Some e), tracker', mempool')
           | None \<Rightarrow>
               ((if length (InvList invRequest) > 0 then response @ [invRequest] else response,
                 None), tracker', mempool')))"

text \<open>
  What the mempool answered for each key during one sweep that runs to its end, in the order
  of the sweep: the mempool state is threaded through the calls as \<open>Check_loop\<close> does.
\<close>

fun sweep_answers :: "'mp AddRequest \<Rightarrow> 'mp \<Rightarrow> Hash32 list \<Rightarrow> (Hash32 \<times> bool \<times> bool) list" where
  "sweep_answers AddRequest mempool [] = []"
| "sweep_answers AddRequest mempool (txid # rest) =
     (case AddRequest mempool txid of
        (answer, mempool') \<Rightarrow> (txid, answer) # sweep_answers AddRequest mempool' rest)"

definition requested :: "MsgGetData list \<Rightarrow> Hash32 list" where
  "requested msgs = map Hash (concat (map InvList msgs))"

text \<open>
  The keys of a sweep that have to be requested, in the order of the sweep, and the keys that
  leave the tracker.
\<close>

definition to_request :: "(Hash32 \<times> bool \<times> bool) list \<Rightarrow> Hash32 list" where
  "to_request answers =
     map fst (filter (\<lambda>(txid, alreadyHave, shouldRequest). \<not> alreadyHave \<and> shouldRequest) answers)"

definition to_remove :: "(Hash32 \<times> bool \<times> bool) list \<Rightarrow> Hash32 set" where
  "to_remove answers =
     set (map fst (filter (\<lambda>(txid, alreadyHave, shouldRequest). alreadyHave \<or> shouldRequest) answers))"

section \<open>Byte readers and writers\<close>

datatype error =
    EOF
  | ErrUnexpectedEOF
  | ErrBadType
  | ErrBadScriptHashLength
  | ErrUnknownScriptTemplate
  | ErrWrongByteLength
  | ErrUnknownVersion byte
  | ErrNegativeCount
  | ErrVarInt
  | ErrNotFound
  | ErrStorage
  | ErrDeserialize error

text \<open>Sequencing of fallible steps: \<open>if err != nil { return err }\<close>.\<close>

definition and_then :: "'e + 'a \<Rightarrow> ('a \<Rightarrow> 'e + 'b) \<Rightarrow> 'e + 'b" where
  "and_then r f = (case r of Inl e \<Rightarrow> Inl e | Inr x \<Rightarrow> f x)"

text \<open>
  A \<open>bytes.Reader\<close> is the list of bytes not yet read. \<open>ReadByte\<close> fails with \<open>io.EOF\<close> on an
  empty reader. \<open>Reader_Read n\<close> is \<open>buf.Read(p)\<close> into a fresh zeroed slice \<open>p\<close> of length
  \<open>n\<close>: it fails with \<open>io.EOF\<close> only when nothing is left, and otherwise copies what is
  there, leaving the rest of \<open>p\<close> zero. \<open>binary_Read n\<close> is the \<open>io.ReadFull\<close> of
  \<open>binary.Read\<close> for a value of \<open>n\<close> bytes: it fails unless \<open>n\<close> bytes are left.
\<close>

definition ReadByte :: "byte list \<Rightarrow> error + (byte \<times> byte list)" where
  "ReadByte buf = (case buf of [] \<Rightarrow> Inl EOF | b # rest \<Rightarrow> Inr (b, rest))"

definition Reader_Read :: "nat \<Rightarrow> byte list \<Rightarrow> error + (byte list \<times> byte list)" where
  "Reader_Read n buf =
     (if n = 0 then Inr ([], buf)
      else if buf = [] then Inl EOF
      else Inr (take n buf @ replicate (n - length buf) 0, drop n buf))"

definition binary_Read :: "nat \<Rightarrow> byte list \<Rightarrow> error + (byte list \<times> byte list)" where
  "binary_Read n buf =
     (if n = 0 then Inr ([], buf)
      else if buf = [] then Inl EOF
      else if length buf < n then Inl ErrUnexpectedEOF
      else Inr (take n buf, drop n buf))"

text \<open>Little-endian fixed-width integers, as \<open>binary.LittleEndian\<close> writes and reads them.\<close>

fun le_bytes :: "nat \<Rightarrow> nat \<Rightarrow> byte list" where
  "le_bytes 0 v = []"
| "le_bytes (Suc n) v = of_nat (v mod 256) # le_bytes n (v div 256)"

fun le_value :: "byte list \<Rightarrow> nat" where
  "le_value [] = 0"
| "le_value (b # bs) = unat b + 256 * le_value bs"

definition put_uint64 :: "uint64 \<Rightarrow> byte list" where
  "put_uint64 w = le_bytes 8 (unat w)"

definition put_uint32 :: "uint32 \<Rightarrow> byte list" where
  "put_uint32 w = le_bytes 4 (unat w)"

definition put_bool :: "bool \<Rightarrow> byte list" where
  "put_bool b = [if b then 1 else 0]"

definition read_uint8 :: "byte list \<Rightarrow> error + (byte \<times> byte list)" where
  "read_uint8 buf = and_then (binary_Read 1 buf) (\<lambda>(bs, rest). Inr (of_nat (le_value bs), rest))"

definition read_uint32 :: "byte list \<Rightarrow> error + (uint32 \<times> byte list)" where
  "read_uint32 buf = and_then (binary_Read 4 buf) (\<lambda>(bs, rest). Inr (of_nat (le_value bs), rest))"

definition read_uint64 :: "byte list \<Rightarrow> error + (uint64 \<times> byte list)" where
  "read_uint64 buf = and_then (binary_Read 8 buf) (\<lambda>(bs, rest). Inr (of_nat (le_value bs), rest))"

definition read_bool :: "byte list \<Rightarrow> error + (bool \<times> byte list)" where
  "read_bool buf = and_then (binary_Read 1 buf) (\<lambda>(bs, rest). Inr (le_value bs \<noteq> 0, rest))"

section \<open>Raw addresses and hashes (package bitcoin)\<close>

type_synonym Hash20 = "byte list"

definition Hash20Size :: nat where "Hash20Size = 20"
definition ScriptHashLength :: nat where "ScriptHashLength = 20"

definition ScriptTypePKH :: byte where "ScriptTypePKH = 0x20"
definition ScriptTypeSH :: byte where "ScriptTypeSH = 0x21"
definition ScriptTypeMultiPKH :: byte where "ScriptTypeMultiPKH = 0x22"
definition ScriptTypeRPH :: byte where "ScriptTypeRPH = 0x23"

record RawAddress =
  scriptType :: byte
  data :: "byte list"

text \<open>The zero value \<open>RawAddress{}\<close>.\<close>

definition RawAddress_zero :: RawAddress where
  "RawAddress_zero = \<lparr>scriptType = 0, data = []\<rparr>"

text \<open>
  The constants \<open>AddressTypeMainPKH\<close> ... \<open>AddressTypeTestRPH\<close>, the base-128 integer codec
  and \<open>Hash160\<close> are declared in files that are not among the sources; they are the fields
  of the parameter \<open>bc\<close>. A Go \<open>switch\<close> over constants does not compile when two cases
  name the same value, which \<open>switch_consts_distinct\<close> records.
\<close>

record bitcoin_consts =
  AddressTypeMainPKH :: byte
  AddressTypeTestPKH :: byte
  AddressTypeMainSH :: byte
  AddressTypeTestSH :: byte
  AddressTypeMainMultiPKH :: byte
  AddressTypeTestMultiPKH :: byte
  AddressTypeMainRPH :: byte
  AddressTypeTestRPH :: byte
  ReadBase128VarInt :: "byte list \<Rightarrow> error + (int \<times> byte list)"
  WriteBase128VarInt :: "int \<Rightarrow> error + byte list"
  Hash160 :: "byte list \<Rightarrow> byte list"

definition switch_consts_distinct :: "bitcoin_consts \<Rightarrow> bool" where
  "switch_consts_distinct bc \<longleftrightarrow>
     distinct [AddressTypeMainPKH bc, AddressTypeTestPKH bc, ScriptTypePKH,
               AddressTypeMainSH bc, AddressTypeTestSH bc, ScriptTypeSH,
               AddressTypeMainMultiPKH bc, AddressTypeTestMultiPKH bc, ScriptTypeMultiPKH,
               AddressTypeMainRPH bc, AddressTypeTestRPH bc, ScriptTypeRPH]"

definition NewHash20 :: "byte list \<Rightarrow> error + Hash20" where
  "NewHash20 b = (if length b \<noteq> Hash20Size then Inl ErrWrongByteLength else Inr b)"

definition SetPKH :: "byte list \<Rightarrow> error + RawAddress" where
  "SetPKH pkh =
     (if length pkh \<noteq> ScriptHashLength then Inl ErrBadScriptHashLength
      else Inr \<lparr>scriptType = ScriptTypePKH, data = pkh\<rparr>)"

definition SetSH :: "byte list \<Rightarrow> error + RawAddress" where
  "SetSH sh =
     (if length sh \<noteq> ScriptHashLength then Inl ErrBadScriptHashLength
      else Inr \<lparr>scriptType = ScriptTypeSH, data = sh\<rparr>)"

definition SetRPH :: "byte list \<Rightarrow> error + RawAddress" where
  "SetRPH rph =
     (if length rph \<noteq> ScriptHashLength then Inl ErrBadScriptHashLength
      else Inr \<lparr>scriptType = ScriptTypeRPH, data = rph\<rparr>)"

text \<open>
  \<open>SetMultiPKH\<close> writes the two counts and then every hash; \<open>buf.Write\<close> returns the length
  of what it wrote, which has to be \<open>ScriptHashLength\<close>.
\<close>

fun write_pkhs :: "byte list list \<Rightarrow> error + byte list" where
  "write_pkhs [] = Inr []"
| "write_pkhs (pkh # rest) =
     (if length pkh \<noteq> ScriptHashLength then Inl ErrBadScriptHashLength
      else and_then (write_pkhs rest) (\<lambda>bs. Inr (pkh @ bs)))"

definition SetMultiPKH :: "bitcoin_consts \<Rightarrow> int \<Rightarrow> byte list list \<Rightarrow> error + RawAddress" where
  "SetMultiPKH bc required pkhs =
     and_then (WriteBase128VarInt bc required) (\<lambda>b1.
     and_then (WriteBase128VarInt bc (int (length pkhs))) (\<lambda>b2.
     and_then (write_pkhs pkhs) (\<lambda>b3.
       Inr \<lparr>scriptType = ScriptTypeMultiPKH, data = b1 @ b2 @ b3\<rparr>)))"

fun read_pkhs :: "nat \<Rightarrow> byte list \<Rightarrow> error + (byte list list \<times> byte list)" where
  "read_pkhs 0 buf = Inr ([], buf)"
| "read_pkhs (Suc n) buf =
     and_then (Reader_Read ScriptHashLength buf) (\<lambda>(pkh, buf1).
     and_then (read_pkhs n buf1) (\<lambda>(pkhs, buf2). Inr (pkh # pkhs, buf2)))"

text \<open>
  \<open>RawAddress.Deserialize\<close>. The result pairs the address with the bytes left in the reader.
  \<open>make([][]byte, 0, count)\<close> panics for a negative count, which is the error
  \<open>ErrNegativeCount\<close> here.
\<close>

definition RawAddress_Deserialize ::
  "bitcoin_consts \<Rightarrow> byte list \<Rightarrow> error + (RawAddress \<times> byte list)" where
  "RawAddress_Deserialize bc buf =
     and_then (ReadByte buf) (\<lambda>(t, buf1).
       if t = AddressTypeMainPKH bc \<or> t = AddressTypeTestPKH bc \<or> t = ScriptTypePKH then
         and_then (Reader_Read ScriptHashLength buf1) (\<lambda>(pkh, buf2).
         and_then (SetPKH pkh) (\<lambda>ra. Inr (ra, buf2)))
       else if t = AddressTypeMainSH bc \<or> t = AddressTypeTestSH bc \<or> t = ScriptTypeSH then
         and_then (Reader_Read ScriptHashLength buf1) (\<lambda>(sh, buf2).
         and_then (SetSH sh) (\<lambda>ra. Inr (ra, buf2)))
       else if t = AddressTypeMainMultiPKH bc \<or> t = AddressTypeTestMultiPKH bc
               \<or> t = ScriptTypeMultiPKH then
         and_then (ReadBase128VarInt bc buf1) (\<lambda>(required, buf2).
         and_then (ReadBase128VarInt bc buf2) (\<lambda>(count, buf3).
           if count < 0 then Inl ErrNegativeCount
           else
             and_then (read_pkhs (nat count) buf3) (\<lambda>(pkhs, buf4).
             and_then (SetMultiPKH bc required pkhs) (\<lambda>ra. Inr (ra, buf4)))))
       else if t = AddressTypeMainRPH bc \<or> t = AddressTypeTestRPH bc \<or> t = ScriptTypeRPH then
         and_then (Reader_Read ScriptHashLength buf1) (\<lambda>(rph, buf2).
         and_then (SetRPH rph) (\<lambda>ra. Inr (ra, buf2)))
       else Inl ErrBadType)"

definition RawAddress_Serialize :: "RawAddress \<Rightarrow> byte list" where
  "RawAddress_Serialize ra = scriptType ra # data ra"

definition RawAddress_Bytes :: "RawAddress \<Rightarrow> byte list" where
  "RawAddress_Bytes ra = (if length (data ra) = 0 then [] else scriptType ra # data ra)"

definition RawAddress_Equal :: "RawAddress \<Rightarrow> RawAddress \<Rightarrow> bool" where
  "RawAddress_Equal ra other \<longleftrightarrow> scriptType ra = scriptType other \<and> data ra = data other"

definition IsEmpty :: "RawAddress \<Rightarrow> bool" where
  "IsEmpty ra \<longleftrightarrow> length (data ra) = 0"

definition RawAddress_Hash :: "bitcoin_consts \<Rightarrow> RawAddress \<Rightarrow> error + Hash20" where
  "RawAddress_Hash bc ra =
     (if scriptType ra = ScriptTypePKH then NewHash20 (data ra)
      else if scriptType ra = ScriptTypeSH then NewHash20 (data ra)
      else if scriptType ra = ScriptTypeMultiPKH then NewHash20 (Hash160 bc (RawAddress_Bytes ra))
      else if scriptType ra = ScriptTypeRPH then NewHash20 (data ra)
      else Inl ErrUnknownScriptTemplate)"

section \<open>Holdings (packages state and holdings)\<close>

text \<open>
  \<open>protocol.Timestamp\<close>, \<open>protocol.TxId\<close> and \<open>protocol.AssetCode\<close> come from the external
  specification library: a timestamp is a count of nanoseconds in 64 bits, written as eight
  little-endian bytes; a transaction id is 32 bytes, written as they are.
\<close>

type_synonym Timestamp = uint64
type_synonym TxId = "byte list"
type_synonym AssetCode = "byte list"

definition TxIdSize :: nat where "TxIdSize = 32"

definition DeserializeTimestamp :: "byte list \<Rightarrow> error + (Timestamp \<times> byte list)" where
  "DeserializeTimestamp buf = read_uint64 buf"

definition DeserializeTxId :: "byte list \<Rightarrow> error + (TxId \<times> byte list)" where
  "DeserializeTxId buf = Reader_Read TxIdSize buf"

record HoldingStatus =
  Code :: byte
  Expires :: Timestamp
  Amount :: uint64
  TxId :: TxId
  SettleQuantity :: uint64
  Posted :: bool

text \<open>
  \<open>state.Holding\<close>. The Go map \<open>HoldingStatuses\<close> holds pointers to statuses. The type
  parameter \<open>'s\<close> is what the map holds: the status itself where only its value matters
  (serialization), a reference into the store where sharing matters (the cache).
\<close>

record 's Holding =
  Address :: RawAddress
  PendingBalance :: uint64
  FinalizedBalance :: uint64
  CreatedAt :: Timestamp
  UpdatedAt :: Timestamp
  HoldingStatuses :: "TxId \<rightharpoonup> 's"

subsection \<open>Serialization\<close>

text \<open>Writes to a \<open>bytes.Buffer\<close> do not fail, so the serializers return the bytes.\<close>

definition serializeHoldingStatus :: "HoldingStatus \<Rightarrow> byte list" where
  "serializeHoldingStatus hs =
     [Code hs] @ put_uint64 (Expires hs) @ put_uint64 (Amount hs) @ TxId hs
     @ put_uint64 (SettleQuantity hs) @ put_bool (Posted hs)"

text \<open>
  \<open>for _, value := range h.HoldingStatuses\<close> visits the statuses in the order in which the Go
  runtime ranges over the map, which the language leaves unspecified and which may differ
  from one loop to the next. The order of one run is the parameter \<open>ks\<close>, a list of the keys
  (\<open>range_order\<close>); \<open>len(h.HoldingStatuses)\<close> is then \<open>length ks\<close>.
\<close>

definition serializeHolding :: "TxId list \<Rightarrow> HoldingStatus Holding \<Rightarrow> byte list" where
  "serializeHolding ks h =
     [0] @ RawAddress_Serialize (Address h)
     @ put_uint64 (PendingBalance h) @ put_uint64 (FinalizedBalance h)
     @ put_uint64 (CreatedAt h) @ put_uint64 (UpdatedAt h)
     @ put_uint32 (of_nat (length ks))
     @ concat (map (\<lambda>k. case HoldingStatuses h k of
                           Some hs \<Rightarrow> serializeHoldingStatus hs
                         | None \<Rightarrow> []) ks)"

definition deserializeHoldingStatus :: "byte list \<Rightarrow> error + (HoldingStatus \<times> byte list)" where
  "deserializeHoldingStatus buf =
     and_then (read_uint8 buf) (\<lambda>(code, buf1).
     and_then (DeserializeTimestamp buf1) (\<lambda>(expires, buf2).
     and_then (read_uint64 buf2) (\<lambda>(amount, buf3).
     and_then (DeserializeTxId buf3) (\<lambda>(txid, buf4).
     and_then (read_uint64 buf4) (\<lambda>(settleQuantity, buf5).
     and_then (read_bool buf5) (\<lambda>(posted, buf6).
       Inr (\<lparr>Code = code, Expires = expires, Amount = amount, TxId = txid,
              SettleQuantity = settleQuantity, Posted = posted\<rparr>, buf6)))))))"

text \<open>The loop \<open>for i := 0; i < int(length); i++\<close> of \<open>deserializeHolding\<close>.\<close>

fun deserializeStatuses ::
  "nat \<Rightarrow> byte list \<Rightarrow> (TxId \<rightharpoonup> HoldingStatus)
     \<Rightarrow> error + ((TxId \<rightharpoonup> HoldingStatus) \<times> byte list)" where
  "deserializeStatuses 0 buf statuses = Inr (statuses, buf)"
| "deserializeStatuses (Suc n) buf statuses =
     and_then (deserializeHoldingStatus buf) (\<lambda>(hs, buf1).
       deserializeStatuses n buf1 (statuses(TxId hs \<mapsto> hs)))"

text \<open>
  \<open>deserializeHolding\<close> returns \<open>(&result, err)\<close>; with a non-nil \<open>err\<close> its callers drop
  the partly filled result, so a failure is the error alone.
\<close>

definition deserializeHolding :: "bitcoin_consts \<Rightarrow> byte list \<Rightarrow> error + HoldingStatus Holding" where
  "deserializeHolding bc buf =
     and_then (read_uint8 buf) (\<lambda>(version, buf1).
       if version \<noteq> 0 then Inl (ErrUnknownVersion version)
       else
         and_then (RawAddress_Deserialize bc buf1) (\<lambda>(address, buf2).
         and_then (read_uint64 buf2) (\<lambda>(pendingBalance, buf3).
         and_then (read_uint64 buf3) (\<lambda>(finalizedBalance, buf4).
         and_then (DeserializeTimestamp buf4) (\<lambda>(createdAt, buf5).
         and_then (DeserializeTimestamp buf5) (\<lambda>(updatedAt, buf6).
         and_then (read_uint32 buf6) (\<lambda>(len, buf7).
         and_then (deserializeStatuses (unat len) buf7 Map.empty) (\<lambda>(statuses, buf8).
           Inr \<lparr>Address = address, PendingBalance = pendingBalance,
                FinalizedBalance = finalizedBalance, CreatedAt = createdAt,
                UpdatedAt = updatedAt, HoldingStatuses = statuses\<rparr>))))))))"

subsection \<open>Well-formed holdings\<close>

text \<open>
  Addresses made by \<open>SetPKH\<close>, \<open>SetSH\<close> or \<open>SetRPH\<close>: one of the three hash types with
  twenty bytes of data. Statuses are stored under their own transaction id
  (\<open>result.HoldingStatuses[*hs.TxId] = &hs\<close>), which has 32 bytes.
\<close>

definition wf_address :: "RawAddress \<Rightarrow> bool" where
  "wf_address ra \<longleftrightarrow>
     (scriptType ra = ScriptTypePKH \<or> scriptType ra = ScriptTypeSH \<or> scriptType ra = ScriptTypeRPH)
     \<and> length (data ra) = ScriptHashLength"

definition keyed :: "(TxId \<rightharpoonup> HoldingStatus) \<Rightarrow> bool" where
  "keyed m \<longleftrightarrow> (\<forall>k hs. m k = Some hs \<longrightarrow> TxId hs = k \<and> length k = TxIdSize)"

text \<open>Concrete values used to evaluate the definitions.\<close>

definition bc0 :: bitcoin_consts where
  "bc0 = \<lparr>AddressTypeMainPKH = 0x00, AddressTypeTestPKH = 0x6f,
          AddressTypeMainSH = 0x05, AddressTypeTestSH = 0xc4,
          AddressTypeMainMultiPKH = 0x10, AddressTypeTestMultiPKH = 0xd0,
          AddressTypeMainRPH = 0x30, AddressTypeTestRPH = 0xe0,
          ReadBase128VarInt = (\<lambda>buf. Inl ErrVarInt),
          WriteBase128VarInt = (\<lambda>v. Inl ErrVarInt),
          Hash160 = take 20\<rparr>"

definition txid1 :: TxId where "txid1 = replicate 32 1"
definition txid2 :: TxId where "txid2 = replicate 32 2"

definition pkh_address :: "byte \<Rightarrow> RawAddress" where
  "pkh_address b = \<lparr>scriptType = ScriptTypePKH, data = replicate 20 b\<rparr>"

definition status1 :: HoldingStatus where
  "status1 = \<lparr>Code = 1, Expires = 0, Amount = 5, TxId = txid1, SettleQuantity = 95, Posted = False\<rparr>"

definition status2 :: HoldingStatus where
  "status2 = \<lparr>Code = 2, Expires = 0, Amount = 7, TxId = txid2, SettleQuantity = 107, Posted = False\<rparr>"

definition holding0 :: "HoldingStatus Holding" where
  "holding0 = \<lparr>Address = pkh_address 9, PendingBalance = 102, FinalizedBalance = 100,
               CreatedAt = 1, UpdatedAt = 2,
               HoldingStatuses = [txid1 \<mapsto> status1, txid2 \<mapsto> status2]\<rparr>"

subsection \<open>The holdings cache\<close>

text \<open>
  The cache holds pointers to \<open>state.Holding\<close> objects whose status maps hold pointers to
  \<open>state.HoldingStatus\<close> objects, and hands such pointers to its callers, so the objects
  live in an explicit store. A holding reference is the number of the allocation. A status
  object is either allocated on its own (\<open>SNew\<close>) or is one of the statuses that
  \<open>deserializeHolding\<close> allocated for a holding it read (\<open>SLoaded\<close>, by the holding and the
  key under which the status was stored).
\<close>

type_synonym href = nat

datatype sref = SNew nat | SLoaded href TxId

record cacheUpdate =
  cu_h :: href
  cu_modified :: bool

text \<open>
  \<open>var cache map[bitcoin.Hash20]map[protocol.AssetCode]map[bitcoin.Hash20]*cacheUpdate\<close>.
  A \<open>nil\<close> cache is replaced by an empty one before any use, so \<open>nil\<close> is the empty map.
\<close>

record store =
  holdings :: "href \<rightharpoonup> sref Holding"
  statuses :: "sref \<rightharpoonup> HoldingStatus"
  next_ref :: nat
  cache :: "Hash20 \<rightharpoonup> (AssetCode \<rightharpoonup> (Hash20 \<rightharpoonup> cacheUpdate))"

definition empty_store :: store where
  "empty_store = \<lparr>holdings = Map.empty, statuses = Map.empty, next_ref = 0, cache = Map.empty\<rparr>"

text \<open>
  The storage behind \<open>dbConn.Fetch\<close>: \<open>buildStoragePath\<close> formats the three components into
  one path, which is kept as the triple.
\<close>

datatype db_result = DbNotFound | DbError | DbFound "byte list"

type_synonym storage_path = "Hash20 \<times> AssetCode \<times> Hash20"

definition buildStoragePath :: "Hash20 \<Rightarrow> AssetCode \<Rightarrow> Hash20 \<Rightarrow> storage_path" where
  "buildStoragePath contractHash assetCode addressHash = (contractHash, assetCode, addressHash)"

text \<open>The value of a holding object: its fields, with every status pointer followed.\<close>

definition deref :: "store \<Rightarrow> href \<Rightarrow> HoldingStatus Holding option" where
  "deref st p =
     (case holdings st p of
        None \<Rightarrow> None
      | Some hv \<Rightarrow>
          Some \<lparr>Address = Address hv, PendingBalance = PendingBalance hv,
                FinalizedBalance = FinalizedBalance hv, CreatedAt = CreatedAt hv,
                UpdatedAt = UpdatedAt hv,
                HoldingStatuses =
                  (\<lambda>key. case HoldingStatuses hv key of None \<Rightarrow> None | Some r \<Rightarrow> statuses st r)\<rparr>)"

text \<open>
  \<open>copyHolding\<close>: \<open>result := *h\<close> copies the fields, a new map is made and every entry
  \<open>(key, val)\<close> of the old map is put into it, \<open>val\<close> being the pointer to the status. The
  copy is a new object. A \<open>nil\<close> or dangling \<open>h\<close> does not occur; it would be \<open>None\<close>.
\<close>

definition copyHolding :: "store \<Rightarrow> href \<Rightarrow> (href \<times> store) option" where
  "copyHolding st p =
     (case holdings st p of
        None \<Rightarrow> None
      | Some hv \<Rightarrow>
          (let result = hv\<lparr>HoldingStatuses := (\<lambda>key. HoldingStatuses hv key)\<rparr>;
               q = next_ref st
           in Some (q, st\<lparr>holdings := (holdings st)(q \<mapsto> result), next_ref := Suc q\<rparr>)))"

text \<open>
  The object graph that \<open>deserializeHolding\<close> builds for the holding value it read: a new
  holding object and one new status object for each key of its map.
\<close>

definition load_holding :: "store \<Rightarrow> HoldingStatus Holding \<Rightarrow> href \<times> store" where
  "load_holding st h =
     (let q = next_ref st in
      (q, st\<lparr>holdings := (holdings st)(q \<mapsto>
                 \<lparr>Address = Address h, PendingBalance = PendingBalance h,
                  FinalizedBalance = FinalizedBalance h, CreatedAt = CreatedAt h,
                  UpdatedAt = UpdatedAt h,
                  HoldingStatuses =
                    (\<lambda>key. case HoldingStatuses h key of
                              None \<Rightarrow> None | Some hs \<Rightarrow> Some (SLoaded q key))\<rparr>),
              statuses := (\<lambda>r. case r of
                                  SLoaded q' key \<Rightarrow>
                                    if q' = q then HoldingStatuses h key else statuses st r
                                | SNew n \<Rightarrow> statuses st r),
              next_ref := Suc q\<rparr>))"

text \<open>The lookups of \<open>Fetch\<close> and \<open>Save\<close> create the inner maps that are missing.\<close>

definition cache_contract :: "store \<Rightarrow> Hash20 \<Rightarrow> (AssetCode \<rightharpoonup> (Hash20 \<rightharpoonup> cacheUpdate))" where
  "cache_contract st contractHash =
     (case cache st contractHash of None \<Rightarrow> Map.empty | Some contract \<Rightarrow> contract)"

definition cache_asset :: "store \<Rightarrow> Hash20 \<Rightarrow> AssetCode \<Rightarrow> (Hash20 \<rightharpoonup> cacheUpdate)" where
  "cache_asset st contractHash assetCode =
     (case cache_contract st contractHash assetCode of None \<Rightarrow> Map.empty | Some asset \<Rightarrow> asset)"

definition set_cache_asset ::
  "store \<Rightarrow> Hash20 \<Rightarrow> AssetCode \<Rightarrow> (Hash20 \<rightharpoonup> cacheUpdate) \<Rightarrow> store" where
  "set_cache_asset st contractHash assetCode asset =
     st\<lparr>cache := (cache st)(contractHash \<mapsto> (cache_contract st contractHash)(assetCode \<mapsto> asset))\<rparr>"

text \<open>
  \<open>Fetch\<close>. The result is the returned pointer or error, and the store after the call. The
  contract's map is created before the second address is hashed, and both inner maps before
  the lookup, so they are there even when the call fails after that.
\<close>

definition Fetch ::
  "bitcoin_consts \<Rightarrow> (storage_path \<Rightarrow> db_result) \<Rightarrow> RawAddress \<Rightarrow> AssetCode \<Rightarrow> RawAddress \<Rightarrow> store
     \<Rightarrow> (error + href) \<times> store" where
  "Fetch bc dbConn contractAddress assetCode address st =
     (case RawAddress_Hash bc contractAddress of
        Inl err \<Rightarrow> (Inl err, st)
      | Inr contractHash \<Rightarrow>
          (let asset = cache_asset st contractHash assetCode;
               st1 = set_cache_asset st contractHash assetCode asset
           in case RawAddress_Hash bc address of
                Inl err \<Rightarrow> (Inl err, st1)
              | Inr addressHash \<Rightarrow>
                  (case asset addressHash of
                     Some cu \<Rightarrow>
                       (case copyHolding st1 (cu_h cu) of
                          None \<Rightarrow> (Inl ErrStorage, st1)
                        | Some (q, st2) \<Rightarrow> (Inr q, st2))
                   | None \<Rightarrow>
                       (case dbConn (buildStoragePath contractHash assetCode addressHash) of
                          DbNotFound \<Rightarrow> (Inl ErrNotFound, st1)
                        | DbError \<Rightarrow> (Inl ErrStorage, st1)
                        | DbFound b \<Rightarrow>
                            (case deserializeHolding bc b of
                               Inl err \<Rightarrow> (Inl (ErrDeserialize err), st1)
                             | Inr h \<Rightarrow>
                                 (case load_holding st1 h of
                                    (readResult, st2) \<Rightarrow>
                                      (let st3 = set_cache_asset st2 contractHash assetCode
                                                   (asset(addressHash \<mapsto>
                                                      \<lparr>cu_h = readResult, cu_modified = False\<rparr>))
                                       in case copyHolding st3 readResult of
                                            None \<Rightarrow> (Inl ErrStorage, st3)
                                          | Some (q, st4) \<Rightarrow> (Inr q, st4))))))))"

text \<open>
  \<open>Save\<close> puts the pointer it is given into the cache and marks the slot modified. The
  result is the \<open>CacheItem\<close> (the three keys) or the error.
\<close>

definition Save ::
  "bitcoin_consts \<Rightarrow> RawAddress \<Rightarrow> AssetCode \<Rightarrow> href \<Rightarrow> store
     \<Rightarrow> (error + (Hash20 \<times> AssetCode \<times> Hash20)) \<times> store" where
  "Save bc contractAddress assetCode p st =
     (case RawAddress_Hash bc contractAddress of
        Inl err \<Rightarrow> (Inl err, st)
      | Inr contractHash \<Rightarrow>
          (let asset = cache_asset st contractHash assetCode;
               st1 = set_cache_asset st contractHash assetCode asset
           in case holdings st1 p of
                None \<Rightarrow> (Inl ErrStorage, st1)
              | Some hv \<Rightarrow>
                  (case RawAddress_Hash bc (Address hv) of
                     Inl err \<Rightarrow> (Inl err, st1)
                   | Inr addressHash \<Rightarrow>
                       (Inr (contractHash, assetCode, addressHash),
                        set_cache_asset st1 contractHash assetCode
                          (asset(addressHash \<mapsto> \<lparr>cu_h = p, cu_modified = True\<rparr>))))))"

text \<open>The holding value that the cache holds for a key: what a later \<open>Fetch\<close> would copy.\<close>

definition cached :: "store \<Rightarrow> Hash20 \<Rightarrow> AssetCode \<Rightarrow> Hash20 \<Rightarrow> HoldingStatus Holding option" where
  "cached st contractHash assetCode addressHash =
     (case cache_asset st contractHash assetCode addressHash of
        None \<Rightarrow> None
      | Some cu \<Rightarrow> deref st (cu_h cu))"

text \<open>
  What a caller can do with a pointer \<open>p\<close> to a holding: assign a field
  (\<open>p.FinalizedBalance = v\<close>), delete a status from the map
  (\<open>delete(p.HoldingStatuses, txid)\<close>), and assign a field of a status through the map
  (\<open>p.HoldingStatuses[txid].Amount = v\<close>, \<open>p.HoldingStatuses[txid].SettleQuantity = v\<close>).
  A \<open>nil\<close> dereference panics: \<open>None\<close>.
\<close>

definition set_FinalizedBalance :: "store \<Rightarrow> href \<Rightarrow> uint64 \<Rightarrow> store option" where
  "set_FinalizedBalance st p v =
     (case holdings st p of
        None \<Rightarrow> None
      | Some hv \<Rightarrow> Some (st\<lparr>holdings := (holdings st)(p \<mapsto> hv\<lparr>FinalizedBalance := v\<rparr>)\<rparr>))"

definition delete_status :: "store \<Rightarrow> href \<Rightarrow> TxId \<Rightarrow> store option" where
  "delete_status st p txid =
     (case holdings st p of
        None \<Rightarrow> None
      | Some hv \<Rightarrow>
          Some (st\<lparr>holdings := (holdings st)(p \<mapsto>
                      hv\<lparr>HoldingStatuses := (HoldingStatuses hv)(txid := None)\<rparr>)\<rparr>))"

definition update_status ::
  "(HoldingStatus \<Rightarrow> HoldingStatus) \<Rightarrow> store \<Rightarrow> href \<Rightarrow> TxId \<Rightarrow> store option" where
  "update_status f st p txid =
     (case holdings st p of
        None \<Rightarrow> None
      | Some hv \<Rightarrow>
          (case HoldingStatuses hv txid of
             None \<Rightarrow> None
           | Some r \<Rightarrow>
               (case statuses st r of
                  None \<Rightarrow> None
                | Some hs \<Rightarrow> Some (st\<lparr>statuses := (statuses st)(r \<mapsto> f hs)\<rparr>))))"

definition set_status_Amount :: "store \<Rightarrow> href \<Rightarrow> TxId \<Rightarrow> uint64 \<Rightarrow> store option" where
  "set_status_Amount st p txid v = update_status (\<lambda>hs. hs\<lparr>Amount := v\<rparr>) st p txid"

definition set_status_SettleQuantity :: "store \<Rightarrow> href \<Rightarrow> TxId \<Rightarrow> uint64 \<Rightarrow> store option" where
  "set_status_SettleQuantity st p txid v =
     update_status (\<lambda>hs. hs\<lparr>SettleQuantity := v\<rparr>) st p txid"

text \<open>A holding with one pending status, and a storage that holds its serialization.\<close>

definition holding1 :: "HoldingStatus Holding" where
  "holding1 = \<lparr>Address = pkh_address 9, PendingBalance = 95, FinalizedBalance = 100,
               CreatedAt = 1, UpdatedAt = 2, HoldingStatuses = [txid1 \<mapsto> status1]\<rparr>"

definition db1 :: "storage_path \<Rightarrow> db_result" where
  "db1 path =
     (if path = (replicate 20 7, [1, 2, 3], replicate 20 9)
      then DbFound (serializeHolding [txid1] holding1) else DbNotFound)"

text \<open>
  The first \<open>Fetch\<close> of that holding into an empty cache: the bytes are read from storage,
  the holding is put into the cache and a copy is returned.
\<close>

definition fetched1 :: "(error + href) \<times> store" where
  "fetched1 = Fetch bc0 db1 (pkh_address 7) [1, 2, 3] (pkh_address 9) empty_store"

section \<open>Transfers (package handlers)\<close>

subsection \<open>Payloads, transactions and collaborators\<close>

text \<open>
  The rejection codes \<open>actions.Rejections...\<close> are constants of the external specification
  library. \<open>RejectCodeValue\<close> carries the code that pre-processing left in
  \<open>itx.RejectCode\<close>.
\<close>

datatype rejection_code =
    RejectionsMsgMalformed
  | RejectionsTransferExpired
  | RejectionsContractMoved
  | RejectionsContractFrozen
  | RejectionsContractExpired
  | RejectionsInsufficientQuantity
  | RejectionsHoldingsFrozen
  | RejectionsHoldingsLocked
  | RejectionsAssetNotPermitted
  | RejectionsInsufficientTxFeeFunding
  | RejectionsTimeout
  | RejectCodeValue uint32

text \<open>
  An error value of the handlers: \<open>node.NewError(code, ...)\<close> is \<open>Coded code\<close>, for which
  \<open>node.ErrorCode\<close> answers \<open>(code, true)\<close>; \<open>fmt.Errorf\<close>, \<open>errors.New\<close> and
  \<open>errors.Wrap\<close> give \<open>Plain\<close> errors; an error of package bitcoin is passed on as it is;
  \<open>Panic\<close> is a run-time panic (an index out of range), which no \<open>if err != nil\<close> catches.
\<close>

datatype terror = Coded rejection_code | Plain string | Bitcoin error | Panic

definition plain :: "string + 'a \<Rightarrow> terror + 'a" where
  "plain r = (case r of Inl msg \<Rightarrow> Inl (Plain msg) | Inr x \<Rightarrow> Inr x)"

definition wrap :: "string \<Rightarrow> 'e + 'a \<Rightarrow> terror + 'a" where
  "wrap msg r = (case r of Inl e \<Rightarrow> Inl (Plain msg) | Inr x \<Rightarrow> Inr x)"

record QuantityIndexField =
  s_Index :: uint32
  s_Quantity :: uint64

record AssetReceiverField =
  r_Address :: "byte list"
  r_Quantity :: uint64

record AssetTransferField =
  ContractIndex :: uint32
  AssetType :: string
  AssetCode :: "byte list"
  AssetSenders :: "QuantityIndexField list"
  AssetReceivers :: "AssetReceiverField list"

record Transfer =
  Assets :: "AssetTransferField list"
  OfferExpiry :: uint64
  ExchangeFee :: uint64
  ExchangeFeeAddress :: "byte list"

record UTXO =
  utxo_Hash :: Hash32
  utxo_Index :: uint32
  utxo_LockingScript :: "byte list"
  utxo_Value :: uint64

record Input =
  in_Address :: RawAddress
  in_UTXO :: UTXO

record Output =
  out_Address :: RawAddress
  out_UTXO :: UTXO

text \<open>
  \<open>inspector.Transaction\<close>, as far as the handlers read it. \<open>MsgProto\<close> is the payload when
  it is a \<open>Transfer\<close> and \<open>None\<close> when the type assertion fails.
\<close>

record Transaction =
  tx_Hash :: Hash32
  tx_Inputs :: "Input list"
  tx_Outputs :: "Output list"
  RejectCode :: uint32
  MsgProto :: "Transfer option"

record Contract =
  MovedTo :: RawAddress
  FreezePeriod :: Timestamp
  ContractExpiration :: Timestamp
  AdministrationAddress :: RawAddress
  ContractFee :: uint64

record Asset =
  TransfersPermitted :: bool

record TargetAddressField =
  fee_Address :: "byte list"
  fee_Quantity :: uint64

record AssetSettlementField =
  as_ContractIndex :: uint32
  as_AssetType :: string
  as_AssetCode :: "byte list"
  Settlements :: "QuantityIndexField list"

record Settlement =
  st_Timestamp :: uint64
  st_Assets :: "AssetSettlementField list"

subsection \<open>The transaction builder\<close>

record InputSupplement =
  is_LockingScript :: "byte list"
  is_Value :: uint64

record OutPoint =
  op_Hash :: Hash32
  op_Index :: uint32

record TxOut =
  PkScript :: "byte list"
  txout_Value :: uint64

record OutputSupplement =
  os_IsChange :: bool
  os_IsDust :: bool

text \<open>
  \<open>txbuilder.TxBuilder\<close>: \<open>Inputs\<close> and \<open>Outputs\<close> are the supplements, \<open>TxIn\<close> and \<open>TxOut\<close>
  the inputs and outputs of \<open>MsgTx\<close>.
\<close>

record TxBuilder =
  Inputs :: "InputSupplement list"
  Outputs :: "OutputSupplement list"
  TxIn :: "OutPoint list"
  TxOut :: "TxOut list"
  ChangeAddress :: RawAddress

text \<open>
  \<open>txbuilder.NewTxBuilder\<close> and \<open>SetChangeAddress\<close> are not among the sources: a new builder
  is taken to be empty, and the change address to be recorded.
\<close>

definition NewTxBuilder :: TxBuilder where
  "NewTxBuilder = \<lparr>Inputs = [], Outputs = [], TxIn = [], TxOut = [], ChangeAddress = RawAddress_zero\<rparr>"

definition SetChangeAddress :: "TxBuilder \<Rightarrow> RawAddress \<Rightarrow> TxBuilder" where
  "SetChangeAddress tx address = tx\<lparr>ChangeAddress := address\<rparr>"

text \<open>\<open>TxBuilder.AddInput\<close> always returns \<open>nil\<close>.\<close>

definition AddInput :: "TxBuilder \<Rightarrow> OutPoint \<Rightarrow> byte list \<Rightarrow> uint64 \<Rightarrow> TxBuilder" where
  "AddInput tx outpoint lockScript v =
     tx\<lparr>Inputs := Inputs tx @ [\<lparr>is_LockingScript = lockScript, is_Value = v\<rparr>],
        TxIn := TxIn tx @ [outpoint]\<rparr>"

datatype holdings_error =
  ErrInsufficientHoldings | ErrHoldingsFrozen | ErrHoldingsLocked | ErrHoldingsOther

datatype sign_error = ErrorCodeInsufficientValue | ErrorCodeOther

text \<open>
  The collaborators of the handlers whose code is not among the sources, as parameters: the
  contract and asset stores, the holdings ledger (over any representation \<open>'h\<close> of a
  holding), the output side of the transaction builder, the script template parser, the
  payload codec, and the steps that store, sign and send. A collaborator that fails returns
  the message of a plain error; \<open>asset_IsTransferable\<close> may return a coded one. The values
  \<open>rk.Address\<close>, \<open>v.Now\<close> and the configuration are fields as well. One handler call reads
  the same contract at each \<open>contract.Retrieve\<close>.
\<close>

record 'h env =
  btc :: bitcoin_consts
  rk_Address :: RawAddress
  Now :: Timestamp
  DustLimit :: uint64
  FeeAddress :: RawAddress
  contract_Retrieve :: "string + Contract"
  asset_Retrieve :: "AssetCode \<Rightarrow> string + Asset"
  asset_IsTransferable :: "Asset \<Rightarrow> Timestamp \<Rightarrow> terror option"
  GetHolding :: "AssetCode \<Rightarrow> RawAddress \<Rightarrow> Timestamp \<Rightarrow> string + 'h"
  AddDebit :: "'h \<Rightarrow> TxId \<Rightarrow> uint64 \<Rightarrow> bool \<Rightarrow> Timestamp \<Rightarrow> holdings_error + 'h"
  AddDeposit :: "'h \<Rightarrow> TxId \<Rightarrow> uint64 \<Rightarrow> bool \<Rightarrow> Timestamp \<Rightarrow> holdings_error + 'h"
  RevertStatus :: "'h \<Rightarrow> TxId \<Rightarrow> string + 'h"
  holding_PendingBalance :: "'h \<Rightarrow> uint64"
  saveHoldings :: "(AssetCode \<rightharpoonup> (Hash20 \<rightharpoonup> 'h)) \<Rightarrow> string option"
  RawAddressFromLockingScript :: "byte list \<Rightarrow> string + RawAddress"
  AddDustOutput :: "TxBuilder \<Rightarrow> RawAddress \<Rightarrow> bool \<Rightarrow> string + TxBuilder"
  AddPaymentOutput :: "TxBuilder \<Rightarrow> RawAddress \<Rightarrow> uint64 \<Rightarrow> bool \<Rightarrow> string + TxBuilder"
  AddValueToOutput :: "TxBuilder \<Rightarrow> uint32 \<Rightarrow> uint64 \<Rightarrow> string + TxBuilder"
  AddOutput :: "TxBuilder \<Rightarrow> byte list \<Rightarrow> uint64 \<Rightarrow> bool \<Rightarrow> bool \<Rightarrow> string + TxBuilder"
  OutputAddress :: "TxBuilder \<Rightarrow> nat \<Rightarrow> string + RawAddress"
  Sign :: "TxBuilder \<Rightarrow> sign_error + TxBuilder"
  Serialize_Settlement :: "Settlement \<Rightarrow> string + byte list"
  is_Settlement_script :: "byte list \<Rightarrow> bool"
  transactions_AddTx :: "Transaction \<Rightarrow> string option"
  Respond :: "TxBuilder \<Rightarrow> string option"
  sendToNextSettlementContract ::
    "Transaction \<Rightarrow> Transfer \<Rightarrow> TxBuilder \<Rightarrow> Settlement \<Rightarrow> TargetAddressField list \<Rightarrow> string option"
  save_pending_transfer :: "Transaction \<Rightarrow> string option"
  UTXOs_ForAddress :: "Transaction \<Rightarrow> RawAddress \<Rightarrow> string + UTXO list"
  RejectionsData :: "rejection_code \<Rightarrow> string option"
  Serialize_Rejection :: "rejection_code \<Rightarrow> string \<Rightarrow> uint32 list \<Rightarrow> uint32 \<Rightarrow> string + byte list"

text \<open>
  A call whose error the code does not look at (\<open>settleTx.AddPaymentOutput(...)\<close> as a
  statement): a builder that fails is taken to be left as it was.
\<close>

definition ignoring_error :: "TxBuilder \<Rightarrow> string + TxBuilder \<Rightarrow> TxBuilder" where
  "ignoring_error tx r = (case r of Inl msg \<Rightarrow> tx | Inr tx' \<Rightarrow> tx')"

text \<open>
  \<open>bitcoin.DecodeRawAddress\<close>: \<open>switch b[0]\<close> panics on an empty slice. For the multi-PKH
  type the hashes are read from \<open>b[1:]\<close> through a \<open>bytes.Buffer\<close>, whose \<open>Read\<close> behaves
  as that of a reader.
\<close>

definition DecodeRawAddress :: "bitcoin_consts \<Rightarrow> byte list \<Rightarrow> terror + RawAddress" where
  "DecodeRawAddress c b =
     (case b of
        [] \<Rightarrow> Inl Panic
      | t # rest \<Rightarrow>
          (case
             (if t = AddressTypeMainPKH c \<or> t = AddressTypeTestPKH c \<or> t = ScriptTypePKH then
                SetPKH rest
              else if t = AddressTypeMainSH c \<or> t = AddressTypeTestSH c \<or> t = ScriptTypeSH then
                SetSH rest
              else if t = AddressTypeMainMultiPKH c \<or> t = AddressTypeTestMultiPKH c
                      \<or> t = ScriptTypeMultiPKH then
                and_then (ReadBase128VarInt c rest) (\<lambda>(required, buf2).
                and_then (ReadBase128VarInt c buf2) (\<lambda>(count, buf3).
                  if count < 0 then Inl ErrNegativeCount
                  else
                    and_then (read_pkhs (nat count) buf3) (\<lambda>(pkhs, buf4).
                      SetMultiPKH c required pkhs)))
              else if t = AddressTypeMainRPH c \<or> t = AddressTypeTestRPH c \<or> t = ScriptTypeRPH then
                SetRPH rest
              else Inl ErrBadType)
           of Inl e \<Rightarrow> Inl (if e = ErrNegativeCount then Panic else Bitcoin e)
            | Inr ra \<Rightarrow> Inr ra))"

subsection \<open>First contract and single contract\<close>

definition is_bitcoin :: "AssetTransferField \<Rightarrow> bool" where
  "is_bitcoin assetTransfer \<longleftrightarrow>
     AssetType assetTransfer = ''BSV'' \<and> length (AssetCode assetTransfer) = 0"

fun firstContractOutputIndex :: "AssetTransferField list \<Rightarrow> Transaction \<Rightarrow> uint32" where
  "firstContractOutputIndex [] itx = 0x0000ffff"
| "firstContractOutputIndex (asset # rest) itx =
     (if AssetType asset \<noteq> ''BSV'' \<and> length (AssetCode asset) \<noteq> 0
         \<and> unat (ContractIndex asset) < length (tx_Outputs itx)
      then ContractIndex asset
      else firstContractOutputIndex rest itx)"

fun transferIsSingleContract :: "'h env \<Rightarrow> Transaction \<Rightarrow> AssetTransferField list \<Rightarrow> bool" where
  "transferIsSingleContract E itx [] = True"
| "transferIsSingleContract E itx (assetTransfer # rest) =
     (if AssetType assetTransfer = ''BSV'' then transferIsSingleContract E itx rest
      else if unat (ContractIndex assetTransfer) \<ge> length (tx_Outputs itx) then False
      else if out_Address (tx_Outputs itx ! unat (ContractIndex assetTransfer)) \<noteq> rk_Address E
        then False
      else transferIsSingleContract E itx rest)"

subsection \<open>buildSettlementTx\<close>

text \<open>The first loop: one input for each contract output that an asset names.\<close>

fun setup_inputs ::
  "Transaction \<Rightarrow> AssetTransferField list \<Rightarrow> bool list \<Rightarrow> TxBuilder
     \<Rightarrow> terror + (bool list \<times> TxBuilder)" where
  "setup_inputs transferTx [] outputUsed settleTx = Inr (outputUsed, settleTx)"
| "setup_inputs transferTx (assetTransfer # rest) outputUsed settleTx =
     (if ContractIndex assetTransfer = 0x0000ffff \<or> is_bitcoin assetTransfer then
        setup_inputs transferTx rest outputUsed settleTx
      else if unat (ContractIndex assetTransfer) \<ge> length (tx_Outputs transferTx) then
        Inl (Plain ''Transfer contract index out of range'')
      else if outputUsed ! unat (ContractIndex assetTransfer) then
        setup_inputs transferTx rest outputUsed settleTx
      else
        (let output = tx_Outputs transferTx ! unat (ContractIndex assetTransfer) in
         setup_inputs transferTx rest
           (outputUsed[unat (ContractIndex assetTransfer) := True])
           (AddInput settleTx
              \<lparr>op_Hash = tx_Hash transferTx, op_Index = ContractIndex assetTransfer\<rparr>
              (utxo_LockingScript (out_UTXO output)) (utxo_Value (out_UTXO output)))))"

text \<open>
  The second loop, per asset: the senders, then the receivers. The loop state is the map
  \<open>addresses\<close> from address hash to output index, the builder and, for the receivers,
  \<open>contractBalance\<close>. The accumulator \<open>assetBalance\<close> of the source is written but never
  read and is left out.
\<close>

fun add_sender_outputs ::
  "'h env \<Rightarrow> Transaction \<Rightarrow> QuantityIndexField list \<Rightarrow> (Hash20 \<rightharpoonup> uint32) \<Rightarrow> TxBuilder
     \<Rightarrow> terror + ((Hash20 \<rightharpoonup> uint32) \<times> TxBuilder)" where
  "add_sender_outputs E transferTx [] addresses settleTx = Inr (addresses, settleTx)"
| "add_sender_outputs E transferTx (quantityIndex # rest) addresses settleTx =
     (if s_Index quantityIndex \<ge> of_nat (length (tx_Inputs transferTx)) then
        Inl (Plain ''Transfer sender index out of range'')
      else
        (let address = in_Address (tx_Inputs transferTx ! unat (s_Index quantityIndex)) in
         and_then (wrap ''Transfer sender address invalid'' (RawAddress_Hash (btc E) address))
           (\<lambda>hash.
              case addresses hash of
                Some outputIndex \<Rightarrow> add_sender_outputs E transferTx rest addresses settleTx
              | None \<Rightarrow>
                  and_then (plain (AddDustOutput E settleTx address False)) (\<lambda>settleTx'.
                    add_sender_outputs E transferTx rest
                      (addresses(hash \<mapsto> of_nat (length (TxOut settleTx)))) settleTx'))))"

fun add_receiver_outputs ::
  "'h env \<Rightarrow> bool \<Rightarrow> AssetReceiverField list \<Rightarrow> (Hash20 \<rightharpoonup> uint32) \<Rightarrow> TxBuilder \<Rightarrow> uint64
     \<Rightarrow> terror + ((Hash20 \<rightharpoonup> uint32) \<times> TxBuilder \<times> uint64)" where
  "add_receiver_outputs E assetIsBitcoin [] addresses settleTx contractBalance =
     Inr (addresses, settleTx, contractBalance)"
| "add_receiver_outputs E assetIsBitcoin (assetReceiver # rest) addresses settleTx contractBalance =
     (if assetIsBitcoin \<and> r_Quantity assetReceiver > contractBalance then
        Inl (Plain ''Transfer sent more bitcoin than was funded to contract'')
      else
        (let contractBalance' =
               (if assetIsBitcoin then contractBalance - r_Quantity assetReceiver
                else contractBalance)
         in
         and_then (DecodeRawAddress (btc E) (r_Address assetReceiver)) (\<lambda>receiverAddress.
         and_then (wrap ''Transfer receiver address invalid''
                     (RawAddress_Hash (btc E) receiverAddress)) (\<lambda>hash.
           case addresses hash of
             Some outputIndex \<Rightarrow>
               (if assetIsBitcoin then
                  and_then (plain (AddValueToOutput E settleTx outputIndex
                                     (r_Quantity assetReceiver)))
                    (\<lambda>settleTx'.
                       add_receiver_outputs E assetIsBitcoin rest addresses settleTx'
                         contractBalance')
                else
                  add_receiver_outputs E assetIsBitcoin rest addresses settleTx contractBalance')
           | None \<Rightarrow>
               and_then
                 (plain (if assetIsBitcoin
                         then AddPaymentOutput E settleTx receiverAddress
                                (r_Quantity assetReceiver) False
                         else AddDustOutput E settleTx receiverAddress False))
                 (\<lambda>settleTx'.
                    add_receiver_outputs E assetIsBitcoin rest
                      (addresses(hash \<mapsto> of_nat (length (TxOut settleTx)))) settleTx'
                      contractBalance')))))"

fun setup_outputs ::
  "'h env \<Rightarrow> Transaction \<Rightarrow> AssetTransferField list \<Rightarrow> (Hash20 \<rightharpoonup> uint32) \<Rightarrow> TxBuilder
     \<Rightarrow> uint64 \<Rightarrow> terror + ((Hash20 \<rightharpoonup> uint32) \<times> TxBuilder \<times> uint64)" where
  "setup_outputs E transferTx [] addresses settleTx contractBalance =
     Inr (addresses, settleTx, contractBalance)"
| "setup_outputs E transferTx (assetTransfer # rest) addresses settleTx contractBalance =
     and_then (add_sender_outputs E transferTx (AssetSenders assetTransfer) addresses settleTx)
       (\<lambda>(addresses1, settleTx1).
     and_then (add_receiver_outputs E (is_bitcoin assetTransfer) (AssetReceivers assetTransfer)
                 addresses1 settleTx1 contractBalance)
       (\<lambda>(addresses2, settleTx2, contractBalance2).
          setup_outputs E transferTx rest addresses2 settleTx2 contractBalance2))"

text \<open>The fee outputs of the other contracts; the error of \<open>AddPaymentOutput\<close> is not read.\<close>

fun add_contract_fees :: "'h env \<Rightarrow> TargetAddressField list \<Rightarrow> TxBuilder \<Rightarrow> terror + TxBuilder" where
  "add_contract_fees E [] settleTx = Inr settleTx"
| "add_contract_fees E (fee # rest) settleTx =
     and_then (DecodeRawAddress (btc E) (fee_Address fee)) (\<lambda>feeAddress.
       add_contract_fees E rest
         (ignoring_error settleTx (AddPaymentOutput E settleTx feeAddress (fee_Quantity fee) False)))"

text \<open>
  \<open>buildSettlementTx\<close> returns the builder and the contract fees of the settlement request,
  to which it appends this contract's fee.
\<close>

definition buildSettlementTx ::
  "'h env \<Rightarrow> Transaction \<Rightarrow> Transfer \<Rightarrow> TargetAddressField list \<Rightarrow> uint64
     \<Rightarrow> terror + (TxBuilder \<times> TargetAddressField list)" where
  "buildSettlementTx E transferTx transfer contractFees contractBalance =
     and_then (setup_inputs transferTx (Assets transfer)
                 (replicate (length (tx_Outputs transferTx)) False)
                 (SetChangeAddress NewTxBuilder (rk_Address E)))
       (\<lambda>(outputUsed, settleTx1).
     and_then (setup_outputs E transferTx (Assets transfer) Map.empty settleTx1 contractBalance)
       (\<lambda>(addresses, settleTx2, contractBalance2).
     and_then (add_contract_fees E contractFees settleTx2) (\<lambda>settleTx3.
     and_then (plain (contract_Retrieve E)) (\<lambda>ct.
       if ContractFee ct > 0 then
         Inr (ignoring_error settleTx3
                (AddPaymentOutput E settleTx3 (FeeAddress E) (ContractFee ct) False),
              contractFees @ [\<lparr>fee_Address = RawAddress_Bytes (FeeAddress E),
                                fee_Quantity = ContractFee ct\<rparr>])
       else Inr (settleTx3, contractFees)))))"

subsection \<open>addBitcoinSettlements\<close>

text \<open>
  The search \<open>for i, _ := range settleTx.MsgTx.TxOut\<close> for the output of an address: the
  first index whose \<open>OutputAddress\<close> succeeds and equals the address.
\<close>

fun find_output :: "'h env \<Rightarrow> TxBuilder \<Rightarrow> RawAddress \<Rightarrow> nat list \<Rightarrow> nat option" where
  "find_output E settleTx address [] = None"
| "find_output E settleTx address (i # rest) =
     (case OutputAddress E settleTx i of
        Inl msg \<Rightarrow> find_output E settleTx address rest
      | Inr outputAddress \<Rightarrow>
          if address = outputAddress then Some i else find_output E settleTx address rest)"

fun bitcoin_senders :: "Transaction \<Rightarrow> QuantityIndexField list \<Rightarrow> uint64 \<Rightarrow> terror + uint64" where
  "bitcoin_senders transferTx [] sendBalance = Inr sendBalance"
| "bitcoin_senders transferTx (sender # rest) sendBalance =
     (if unat (s_Index sender) \<ge> length (tx_Inputs transferTx) then
        Inl (Plain ''Sender input index out of range'')
      else if s_Quantity sender
                \<ge> utxo_Value (in_UTXO (tx_Inputs transferTx ! unat (s_Index sender))) then
        Inl (Plain ''Sender bitcoin quantity higher than input amount'')
      else bitcoin_senders transferTx rest (sendBalance + s_Quantity sender))"

fun bitcoin_receivers ::
  "'h env \<Rightarrow> AssetReceiverField list \<Rightarrow> TxBuilder \<Rightarrow> uint64 \<Rightarrow> terror + (TxBuilder \<times> uint64)" where
  "bitcoin_receivers E [] settleTx sendBalance = Inr (settleTx, sendBalance)"
| "bitcoin_receivers E (receiver # rest) settleTx sendBalance =
     and_then (DecodeRawAddress (btc E) (r_Address receiver)) (\<lambda>receiverAddress.
       case find_output E settleTx receiverAddress [0 ..< length (TxOut settleTx)] of
         None \<Rightarrow> Inl (Plain ''Receiver bitcoin output missing output data'')
       | Some i \<Rightarrow>
           (let settleTx' = ignoring_error settleTx
                              (AddValueToOutput E settleTx (of_nat i) (r_Quantity receiver))
            in if r_Quantity receiver \<ge> sendBalance then
                 Inl (Plain ''Sending more bitcoin than received'')
               else bitcoin_receivers E rest settleTx' (sendBalance - r_Quantity receiver)))"

fun bitcoin_assets ::
  "'h env \<Rightarrow> Transaction \<Rightarrow> AssetTransferField list \<Rightarrow> TxBuilder \<Rightarrow> terror + TxBuilder" where
  "bitcoin_assets E transferTx [] settleTx = Inr settleTx"
| "bitcoin_assets E transferTx (assetTransfer # rest) settleTx =
     (if AssetType assetTransfer \<noteq> ''BSV'' \<or> length (AssetCode assetTransfer) \<noteq> 0 then
        bitcoin_assets E transferTx rest settleTx
      else
        and_then (bitcoin_senders transferTx (AssetSenders assetTransfer) 0) (\<lambda>sendBalance.
        and_then (bitcoin_receivers E (AssetReceivers assetTransfer) settleTx sendBalance)
          (\<lambda>(settleTx', sendBalance').
             if sendBalance' \<noteq> 0 then Inl (Plain ''Not sending all recieved bitcoins'')
             else bitcoin_assets E transferTx rest settleTx')))"

definition addBitcoinSettlements ::
  "'h env \<Rightarrow> Transaction \<Rightarrow> Transfer \<Rightarrow> TxBuilder \<Rightarrow> terror + TxBuilder" where
  "addBitcoinSettlements E transferTx transfer settleTx =
     and_then (bitcoin_assets E transferTx (Assets transfer) settleTx) (\<lambda>settleTx1.
       if length (ExchangeFeeAddress transfer) \<noteq> 0 \<and> ExchangeFee transfer > 0 then
         and_then (DecodeRawAddress (btc E) (ExchangeFeeAddress transfer)) (\<lambda>exchangeAddress.
           case find_output E settleTx1 exchangeAddress [0 ..< length (TxOut settleTx1)] of
             Some i \<Rightarrow>
               Inr (ignoring_error settleTx1
                      (AddValueToOutput E settleTx1 (of_nat i) (ExchangeFee transfer)))
           | None \<Rightarrow>
               (case AddPaymentOutput E settleTx1 exchangeAddress (ExchangeFee transfer) False of
                  Inl msg \<Rightarrow> Inl (Plain ''Failed to add exchange fee output'')
                | Inr settleTx2 \<Rightarrow> Inr settleTx2))
       else Inr settleTx1)"

subsection \<open>addSettlementData\<close>

text \<open>
  The search \<open>for i, outputAddress := range settleOutputAddresses\<close> (and the one over
  \<open>settleInputAddresses\<close>) for the first non-empty address equal to the one looked for;
  it starts counting at \<open>i\<close>.
\<close>

fun find_address :: "RawAddress list \<Rightarrow> RawAddress \<Rightarrow> nat \<Rightarrow> nat option" where
  "find_address [] address i = None"
| "find_address (outputAddress # rest) address i =
     (if \<not> IsEmpty outputAddress \<and> outputAddress = address then Some i
      else find_address rest address (Suc i))"

text \<open>An address that \<open>RawAddressFromLockingScript\<close> cannot read is \<open>bitcoin.RawAddress{}\<close>.\<close>

definition script_addresses :: "'h env \<Rightarrow> byte list list \<Rightarrow> RawAddress list" where
  "script_addresses E scripts =
     map (\<lambda>script. case RawAddressFromLockingScript E script of
                       Inl msg \<Rightarrow> RawAddress_zero | Inr address \<Rightarrow> address) scripts"

text \<open>
  The loop over the senders of one asset. Its state is \<open>hds\<close> (one slot for each output of
  the settlement transaction, \<open>None\<close> for \<open>nil\<close>), \<open>updatedHoldings\<close>, \<open>sendBalance\<close>,
  \<open>fromAdministration\<close> and \<open>fromNonAdministration\<close>. The holding is a pointer in the
  source, put into \<open>hds\<close> and \<open>updatedHoldings\<close> and then changed by \<open>AddDebit\<close>; here the
  changed holding is what is put there. The index found is kept in 16 bits
  (\<open>settleOutputIndex = uint16(i)\<close>); indexing \<open>hds\<close> beyond its length panics.
\<close>

type_synonym 'h sender_state = "'h option list \<times> (Hash20 \<rightharpoonup> 'h) \<times> uint64 \<times> uint64 \<times> uint64"

fun process_senders ::
  "'h env \<Rightarrow> Contract \<Rightarrow> Transaction \<Rightarrow> RawAddress list \<Rightarrow> AssetCode \<Rightarrow> bool
     \<Rightarrow> QuantityIndexField list \<Rightarrow> 'h sender_state \<Rightarrow> terror + 'h sender_state" where
  "process_senders E ct transferTx settleOutputAddresses assetCode isSingleContract [] s = Inr s"
| "process_senders E ct transferTx settleOutputAddresses assetCode isSingleContract
     (sender # rest) (hds, updatedHoldings, sendBalance, fromAdministration, fromNonAdministration) =
     (if unat (s_Index sender) \<ge> length (tx_Inputs transferTx) then
        Inl (Plain ''Sender input index out of range'')
      else
        (let address = in_Address (tx_Inputs transferTx ! unat (s_Index sender));
             fromAdministration' =
               (if address = AdministrationAddress ct then fromAdministration + s_Quantity sender
                else fromAdministration);
             fromNonAdministration' =
               (if address = AdministrationAddress ct then fromNonAdministration
                else fromNonAdministration + s_Quantity sender)
         in
         case find_address settleOutputAddresses address 0 of
           None \<Rightarrow> Inl (Plain ''Sender output not found in settle tx'')
         | Some i \<Rightarrow>
             (let settleOutputIndex = (of_nat i :: 16 word) in
              if settleOutputIndex = 0xffff then
                Inl (Plain ''Sender output not found in settle tx'')
              else if unat settleOutputIndex \<ge> length hds then Inl Panic
              else if hds ! unat settleOutputIndex \<noteq> None then
                Inl (Coded RejectionsMsgMalformed)
              else
                and_then (wrap ''Failed to get holding''
                            (GetHolding E assetCode address (Now E))) (\<lambda>h.
                and_then (wrap ''Invalid sender address''
                            (RawAddress_Hash (btc E) address)) (\<lambda>hash.
                  case AddDebit E h (tx_Hash transferTx) (s_Quantity sender) isSingleContract
                         (Now E) of
                    Inl ErrInsufficientHoldings \<Rightarrow> Inl (Coded RejectionsInsufficientQuantity)
                  | Inl ErrHoldingsFrozen \<Rightarrow> Inl (Coded RejectionsHoldingsFrozen)
                  | Inl ErrHoldingsLocked \<Rightarrow> Inl (Coded RejectionsHoldingsLocked)
                  | Inl ErrHoldingsOther \<Rightarrow> Inl (Coded RejectionsMsgMalformed)
                  | Inr h' \<Rightarrow>
                      process_senders E ct transferTx settleOutputAddresses assetCode
                        isSingleContract rest
                        (hds[unat settleOutputIndex := Some h'], updatedHoldings(hash \<mapsto> h'),
                         sendBalance + s_Quantity sender, fromAdministration',
                         fromNonAdministration'))))))"

text \<open>
  The loop over the receivers of one asset; \<open>sendBalance\<close> comes from the senders, and the
  index found is kept in 32 bits.
\<close>

fun process_receivers ::
  "'h env \<Rightarrow> Contract \<Rightarrow> Transaction \<Rightarrow> RawAddress list \<Rightarrow> AssetCode \<Rightarrow> bool
     \<Rightarrow> AssetReceiverField list \<Rightarrow> 'h sender_state \<Rightarrow> terror + 'h sender_state" where
  "process_receivers E ct transferTx settleOutputAddresses assetCode isSingleContract [] s = Inr s"
| "process_receivers E ct transferTx settleOutputAddresses assetCode isSingleContract
     (receiver # rest) (hds, updatedHoldings, sendBalance, toAdministration, toNonAdministration) =
     and_then (DecodeRawAddress (btc E) (r_Address receiver)) (\<lambda>receiverAddress.
       case find_address settleOutputAddresses receiverAddress 0 of
         None \<Rightarrow> Inl (Plain ''Receiver output not found in settle tx'')
       | Some i \<Rightarrow>
           (let settleOutputIndex = (of_nat i :: uint32) in
            if settleOutputIndex = 0x0000ffff then
              Inl (Plain ''Receiver output not found in settle tx'')
            else
              (let toAdministration' =
                     (if receiverAddress = AdministrationAddress ct
                      then toAdministration + r_Quantity receiver else toAdministration);
                   toNonAdministration' =
                     (if receiverAddress = AdministrationAddress ct then toNonAdministration
                      else toNonAdministration + r_Quantity receiver)
               in
               if unat settleOutputIndex \<ge> length hds then Inl Panic
               else if hds ! unat settleOutputIndex \<noteq> None then
                 Inl (Coded RejectionsMsgMalformed)
               else
                 and_then (wrap ''Failed to get holding''
                             (GetHolding E assetCode receiverAddress (Now E))) (\<lambda>h.
                 and_then (wrap ''Invalid receiver address''
                             (RawAddress_Hash (btc E) receiverAddress)) (\<lambda>hash.
                   case AddDeposit E h (tx_Hash transferTx) (r_Quantity receiver)
                          isSingleContract (Now E) of
                     Inl ErrHoldingsLocked \<Rightarrow> Inl (Coded RejectionsHoldingsLocked)
                   | Inl other \<Rightarrow> Inl (Coded RejectionsMsgMalformed)
                   | Inr h' \<Rightarrow>
                       if r_Quantity receiver > sendBalance then
                         Inl (Plain ''Receiving more tokens than sending'')
                       else
                         process_receivers E ct transferTx settleOutputAddresses assetCode
                           isSingleContract rest
                           (hds[unat settleOutputIndex := Some h'],
                            updatedHoldings(hash \<mapsto> h'),
                            sendBalance - r_Quantity receiver, toAdministration',
                            toNonAdministration'))))))"

text \<open>\<open>for index, holding := range hds\<close>: one settlement entry for each slot in use.\<close>

fun settlements_of :: "'h env \<Rightarrow> 'h option list \<Rightarrow> nat \<Rightarrow> QuantityIndexField list" where
  "settlements_of E [] index = []"
| "settlements_of E (holding # rest) index =
     (case holding of
        None \<Rightarrow> settlements_of E rest (Suc index)
      | Some h \<Rightarrow>
          \<lparr>s_Index = of_nat index, s_Quantity = holding_PendingBalance E h\<rparr>
          # settlements_of E rest (Suc index))"

text \<open>The settlement of an asset replaces the first one of the same type and code.\<close>

fun replace_settlement ::
  "AssetSettlementField \<Rightarrow> AssetSettlementField list \<Rightarrow> AssetSettlementField list option" where
  "replace_settlement assetSettlement [] = None"
| "replace_settlement assetSettlement (asset # rest) =
     (if as_AssetType asset = as_AssetType assetSettlement
         \<and> as_AssetCode asset = as_AssetCode assetSettlement
      then Some (assetSettlement # rest)
      else map_option (\<lambda>rest'. asset # rest') (replace_settlement assetSettlement rest))"

text \<open>
  The body of the loop over the assets, for one asset transfer. Its state is the
  settlement, \<open>updates\<close> and \<open>dataAdded\<close>. Bitcoin entries and assets of other contracts
  are passed over (\<open>continue\<close>).
\<close>

type_synonym 'h asset_state = "Settlement \<times> (AssetCode \<rightharpoonup> (Hash20 \<rightharpoonup> 'h)) \<times> bool"

fun settle_asset ::
  "'h env \<Rightarrow> Contract \<Rightarrow> Transaction \<Rightarrow> TxBuilder \<Rightarrow> RawAddress list \<Rightarrow> RawAddress list \<Rightarrow> bool
     \<Rightarrow> AssetTransferField \<Rightarrow> 'h asset_state \<Rightarrow> terror + 'h asset_state" where
  "settle_asset E ct transferTx settleTx settleInputAddresses settleOutputAddresses
     isSingleContract assetTransfer (settlement, updates, dataAdded) =
     (if is_bitcoin assetTransfer then Inr (settlement, updates, dataAdded)
      else if length (tx_Outputs transferTx) \<le> unat (ContractIndex assetTransfer) then
        Inl (Plain ''Contract index out of range'')
      else
        (let contractOutputAddress =
               out_Address (tx_Outputs transferTx ! unat (ContractIndex assetTransfer))
         in
         if IsEmpty contractOutputAddress \<or> contractOutputAddress \<noteq> rk_Address E then
           Inr (settlement, updates, dataAdded)
         else
           and_then (plain (asset_Retrieve E (AssetCode assetTransfer))) (\<lambda>as.
             case asset_IsTransferable E as (Now E) of
               Some err \<Rightarrow> Inl err
             | None \<Rightarrow>
                 (case find_address settleInputAddresses (rk_Address E) 0 of
                    None \<Rightarrow> Inl (Plain ''Contract input not found'')
                  | Some i \<Rightarrow>
                      if (of_nat i :: uint32) = 0x0000ffff then
                        Inl (Plain ''Contract input not found'')
                      else
                        and_then
                          (process_senders E ct transferTx settleOutputAddresses
                             (AssetCode assetTransfer) isSingleContract
                             (AssetSenders assetTransfer)
                             (replicate (length (Outputs settleTx)) None, Map.empty, 0, 0, 0))
                          (\<lambda>(hds1, updatedHoldings1, sendBalance1, fromAdministration,
                              fromNonAdministration).
                        and_then
                          (process_receivers E ct transferTx settleOutputAddresses
                             (AssetCode assetTransfer) isSingleContract
                             (AssetReceivers assetTransfer)
                             (hds1, updatedHoldings1, sendBalance1, 0, 0))
                          (\<lambda>(hds2, updatedHoldings2, sendBalance2, toAdministration,
                              toNonAdministration).
                             if sendBalance2 \<noteq> 0 then
                               Inl (Plain ''Not sending all input tokens'')
                             else if \<not> TransfersPermitted as
                                     \<and> fromNonAdministration > toAdministration then
                               Inl (Coded RejectionsAssetNotPermitted)
                             else if \<not> TransfersPermitted as
                                     \<and> toNonAdministration > fromAdministration then
                               Inl (Coded RejectionsAssetNotPermitted)
                             else
                               (let assetSettlement =
                                      \<lparr>as_ContractIndex = of_nat i,
                                       as_AssetType = AssetType assetTransfer,
                                       as_AssetCode = AssetCode assetTransfer,
                                       Settlements = settlements_of E hds2 0\<rparr>;
                                    assets' =
                                      (case replace_settlement assetSettlement
                                              (st_Assets settlement) of
                                         Some replaced \<Rightarrow> replaced
                                       | None \<Rightarrow> st_Assets settlement @ [assetSettlement])
                                in
                                Inr (settlement\<lparr>st_Assets := assets'\<rparr>,
                                     updates(AssetCode assetTransfer \<mapsto> updatedHoldings2),
                                     True))))))))"

text \<open>\<open>for assetOffset, assetTransfer := range transfer.Assets\<close>: the body, asset after asset.\<close>

fun settle_assets ::
  "'h env \<Rightarrow> Contract \<Rightarrow> Transaction \<Rightarrow> TxBuilder \<Rightarrow> RawAddress list \<Rightarrow> RawAddress list \<Rightarrow> bool
     \<Rightarrow> AssetTransferField list \<Rightarrow> 'h asset_state \<Rightarrow> terror + 'h asset_state" where
  "settle_assets E ct transferTx settleTx settleInputAddresses settleOutputAddresses
     isSingleContract [] s = Inr s"
| "settle_assets E ct transferTx settleTx settleInputAddresses settleOutputAddresses
     isSingleContract (assetTransfer # rest) s =
     and_then (settle_asset E ct transferTx settleTx settleInputAddresses settleOutputAddresses
                 isSingleContract assetTransfer s)
       (settle_assets E ct transferTx settleTx settleInputAddresses settleOutputAddresses
          isSingleContract rest)"

text \<open>The output that holds the settlement payload is the first one that parses as one.\<close>

fun set_settlement_script :: "'h env \<Rightarrow> byte list \<Rightarrow> TxOut list \<Rightarrow> TxOut list option" where
  "set_settlement_script E script [] = None"
| "set_settlement_script E script (output # rest) =
     (if is_Settlement_script E (PkScript output) then Some (output\<lparr>PkScript := script\<rparr> # rest)
      else map_option (\<lambda>rest'. output # rest') (set_settlement_script E script rest))"

definition addSettlementData ::
  "'h env \<Rightarrow> Transaction \<Rightarrow> Transfer \<Rightarrow> TxBuilder \<Rightarrow> Settlement
     \<Rightarrow> (AssetCode \<rightharpoonup> (Hash20 \<rightharpoonup> 'h)) \<Rightarrow> bool
     \<Rightarrow> terror + (TxBuilder \<times> Settlement \<times> (AssetCode \<rightharpoonup> (Hash20 \<rightharpoonup> 'h)))" where
  "addSettlementData E transferTx transfer settleTx settlement updates isSingleContract =
     and_then (wrap ''Failed to retrieve contract'' (contract_Retrieve E)) (\<lambda>ct.
          if FreezePeriod ct > Now E then Inl (Coded RejectionsContractFrozen)
          else
            and_then
              (settle_assets E ct transferTx settleTx
                 (script_addresses E (map is_LockingScript (Inputs settleTx)))
                 (script_addresses E (map PkScript (TxOut settleTx)))
                 isSingleContract (Assets transfer) (settlement, updates, False))
              (\<lambda>(settlement', updates', dataAdded).
                 if \<not> dataAdded then Inl (Plain ''No data added to settlement'')
                 else
                   and_then (plain (Serialize_Settlement E settlement')) (\<lambda>script.
                     case set_settlement_script E script (TxOut settleTx) of
                       None \<Rightarrow> Inl (Plain ''Settlement op return not found in settle tx'')
                     | Some txOut \<Rightarrow>
                         Inr (settleTx\<lparr>TxOut := txOut\<rparr>, settlement', updates'))))"

subsection \<open>TransferRequest\<close>

text \<open>
  What a call of \<open>TransferRequest\<close> comes to: an error returned to the dispatcher
  (\<open>InternalError\<close>), the wait of a contract that is not the first one (\<open>Waiting\<close>), the call
  \<open>respondTransferReject(..., code, started, text)\<close> whose result it returns (\<open>Rejected\<close>),
  the settlement transaction signed and sent by a single contract (\<open>Settled\<close>), the request
  sent on to the next contract (\<open>Forwarded\<close>), or a panic.
\<close>

datatype 'h outcome =
    InternalError string
  | Waiting
  | Rejected rejection_code bool string
  | Settled TxBuilder "AssetCode \<rightharpoonup> (Hash20 \<rightharpoonup> 'h)"
  | Forwarded TxBuilder "AssetCode \<rightharpoonup> (Hash20 \<rightharpoonup> 'h)"
  | Panicked

text \<open>The end of \<open>TransferRequest\<close>, once the settlement data of this contract is added.\<close>

definition finish_transfer ::
  "'h env \<Rightarrow> Transaction \<Rightarrow> Transfer \<Rightarrow> bool \<Rightarrow> TargetAddressField list \<Rightarrow> TxBuilder
     \<Rightarrow> Settlement \<Rightarrow> (AssetCode \<rightharpoonup> (Hash20 \<rightharpoonup> 'h)) \<Rightarrow> 'h outcome" where
  "finish_transfer E itx msg isSingleContract contractFees settleTx settlement assetUpdates =
     (if isSingleContract then
        (case Sign E settleTx of
           Inl ErrorCodeInsufficientValue \<Rightarrow>
             Rejected RejectionsInsufficientTxFeeFunding False ''insufficient value''
         | Inl ErrorCodeOther \<Rightarrow> Rejected RejectionsMsgMalformed False ''''
         | Inr signedTx \<Rightarrow>
             (case Respond E signedTx of
                Some msg \<Rightarrow> InternalError msg
              | None \<Rightarrow>
                  (case saveHoldings E assetUpdates of
                     Some msg \<Rightarrow> InternalError ''Failed to save holding''
                   | None \<Rightarrow> Settled signedTx assetUpdates)))
      else
        (case transactions_AddTx E itx of
           Some msg \<Rightarrow> InternalError ''Failed to save tx''
         | None \<Rightarrow>
             (case sendToNextSettlementContract E itx msg settleTx settlement contractFees of
                Some msg \<Rightarrow> InternalError msg
              | None \<Rightarrow>
                  (case save_pending_transfer E itx of
                     Some msg \<Rightarrow> InternalError msg
                   | None \<Rightarrow>
                       (case saveHoldings E assetUpdates of
                          Some msg \<Rightarrow> InternalError ''Failed to save holding''
                        | None \<Rightarrow> Forwarded settleTx assetUpdates)))))"

text \<open>
  \<open>TransferRequest\<close> up to the call of \<open>addSettlementData\<close>: either the handler has come to
  an end, or the settlement transaction with its placeholder output is built and the call is
  made with the payload, the builder, the empty settlement, the contract fees and
  \<open>isSingleContract\<close>.
\<close>

definition compose_settlement ::
  "'h env \<Rightarrow> Transaction
     \<Rightarrow> 'h outcome + (Transfer \<times> TxBuilder \<times> Settlement \<times> TargetAddressField list \<times> bool)" where
  "compose_settlement E itx =
     (case MsgProto itx of
        None \<Rightarrow> Inl (InternalError ''Could not assert as *actions.Transfer'')
      | Some msg \<Rightarrow>
          (let first = firstContractOutputIndex (Assets msg) itx in
           if first = 0xffff then Inl (InternalError ''Transfer first contract not found'')
           else if out_Address (tx_Outputs itx ! unat first) \<noteq> rk_Address E then
             (case transactions_AddTx E itx of
                Some err \<Rightarrow> Inl (InternalError ''Failed to save tx'')
              | None \<Rightarrow> Inl Waiting)
           else if RejectCode itx \<noteq> 0 then
             Inl (Rejected (RejectCodeValue (RejectCode itx)) False '''')
           else if OfferExpiry msg \<noteq> 0 \<and> Now E > OfferExpiry msg then
             Inl (Rejected RejectionsTransferExpired False '''')
           else if length (Assets msg) = 0 then
             Inl (Rejected RejectionsMsgMalformed False ''No transfers'')
           else
             (let contractBalance = utxo_Value (out_UTXO (tx_Outputs itx ! unat first)) in
              case contract_Retrieve E of
                Inl err \<Rightarrow> Inl (InternalError ''Failed to retrieve contract'')
              | Inr ct \<Rightarrow>
                  if \<not> IsEmpty (MovedTo ct) then
                    Inl (Rejected RejectionsContractMoved False '''')
                  else if FreezePeriod ct > Now E then
                    Inl (Rejected RejectionsContractFrozen False '''')
                  else if ContractExpiration ct \<noteq> 0 \<and> ContractExpiration ct < Now E then
                    Inl (Rejected RejectionsContractExpired False '''')
                  else
                    (case buildSettlementTx E itx msg [] contractBalance of
                       Inl Panic \<Rightarrow> Inl Panicked
                     | Inl err \<Rightarrow> Inl (Rejected RejectionsMsgMalformed False '''')
                     | Inr (settleTx, contractFees) \<Rightarrow>
                         (case addBitcoinSettlements E itx msg settleTx of
                            Inl Panic \<Rightarrow> Inl Panicked
                          | Inl err \<Rightarrow> Inl (Rejected RejectionsMsgMalformed False '''')
                          | Inr settleTx1 \<Rightarrow>
                              (let settlement = \<lparr>st_Timestamp = Now E, st_Assets = []\<rparr> in
                               case Serialize_Settlement E settlement of
                                 Inl err \<Rightarrow> Inl (InternalError err)
                               | Inr script \<Rightarrow>
                                   (case AddOutput E settleTx1 script 0 False False of
                                      Inl err \<Rightarrow> Inl (InternalError err)
                                    | Inr settleTx2 \<Rightarrow>
                                        Inr (msg, settleTx2, settlement, contractFees,
                                             transferIsSingleContract E itx (Assets msg)))))))))"

definition TransferRequest :: "'h env \<Rightarrow> Transaction \<Rightarrow> 'h outcome" where
  "TransferRequest E itx =
     (case compose_settlement E itx of
        Inl outcome \<Rightarrow> outcome
      | Inr (msg, settleTx, settlement, contractFees, isSingleContract) \<Rightarrow>
          (case addSettlementData E itx msg settleTx settlement Map.empty isSingleContract of
             Inl (Coded rejectCode) \<Rightarrow> Rejected rejectCode False ''''
           | Inl Panic \<Rightarrow> Panicked
           | Inl err \<Rightarrow> InternalError ''Failed to add settlement data''
           | Inr (settleTx', settlement', assetUpdates) \<Rightarrow>
               finish_transfer E itx msg isSingleContract contractFees settleTx' settlement'
                 assetUpdates))"

definition is_settled :: "'h outcome \<Rightarrow> bool" where
  "is_settled outcome \<longleftrightarrow>
     (case outcome of Settled tx updates \<Rightarrow> True | Forwarded tx updates \<Rightarrow> True | other \<Rightarrow> False)"

subsection \<open>The response writer\<close>

record RejectOutput =
  ro_Address :: RawAddress
  ro_Value :: uint64
  ro_Change :: bool

text \<open>
  \<open>node.ResponseWriter\<close>, as far as rejections use it. \<open>RespondRejectText\<close> reads the three
  fields; the methods that write them are not among the sources.
\<close>

record ResponseWriter =
  RejectInputs :: "UTXO list"
  RejectOutputs :: "RejectOutput list"
  RejectAddress :: RawAddress

text \<open>
  Modelled from the spec: \<open>ResponseWriter.SetRejectUTXOs\<close>, \<open>AddRejectValue\<close> and
  \<open>ClearRejectOutputValues\<close> are missing. The specification says that a rejection refunds
  bitcoin to the senders, and that on a shortfall the bitcoin is sent instead to the
  contract's administration address and no sender gets a partial refund. So
  \<open>SetRejectUTXOs\<close> sets the inputs that fund the rejection; \<open>AddRejectValue\<close> adds a value
  to the reject output of an address, which it appends when the address has none;
  \<open>ClearRejectOutputValues\<close> sets the value of every reject output to zero and makes the
  output of the address it is given, which it appends when there is none, the one that
  receives the change.
\<close>

definition SetRejectUTXOs :: "ResponseWriter \<Rightarrow> UTXO list \<Rightarrow> ResponseWriter" where
  "SetRejectUTXOs w utxos = w\<lparr>RejectInputs := utxos\<rparr>"

fun add_reject_value :: "RejectOutput list \<Rightarrow> RawAddress \<Rightarrow> uint64 \<Rightarrow> RejectOutput list" where
  "add_reject_value [] address v = [\<lparr>ro_Address = address, ro_Value = v, ro_Change = False\<rparr>]"
| "add_reject_value (out # rest) address v =
     (if ro_Address out = address then out\<lparr>ro_Value := ro_Value out + v\<rparr> # rest
      else out # add_reject_value rest address v)"

definition AddRejectValue :: "ResponseWriter \<Rightarrow> RawAddress \<Rightarrow> uint64 \<Rightarrow> ResponseWriter" where
  "AddRejectValue w address v = w\<lparr>RejectOutputs := add_reject_value (RejectOutputs w) address v\<rparr>"

definition ClearRejectOutputValues :: "ResponseWriter \<Rightarrow> RawAddress \<Rightarrow> ResponseWriter" where
  "ClearRejectOutputValues w changeAddress =
     (let cleared = map (\<lambda>out. out\<lparr>ro_Value := 0, ro_Change := (ro_Address out = changeAddress)\<rparr>)
                        (RejectOutputs w)
      in w\<lparr>RejectOutputs :=
              (if changeAddress \<in> set (map ro_Address (RejectOutputs w)) then cleared
               else cleared @ [\<lparr>ro_Address = changeAddress, ro_Value = 0, ro_Change = True\<rparr>])\<rparr>)"

subsection \<open>RespondRejectText (package node)\<close>

definition AddInputUTXO :: "TxBuilder \<Rightarrow> UTXO \<Rightarrow> TxBuilder" where
  "AddInputUTXO tx utxo =
     tx\<lparr>Inputs := Inputs tx @ [\<lparr>is_LockingScript = utxo_LockingScript utxo,
                                 is_Value = utxo_Value utxo\<rparr>],
        TxIn := TxIn tx @ [\<lparr>op_Hash = utxo_Hash utxo, op_Index = utxo_Index utxo\<rparr>]\<rparr>"

text \<open>
  The change address of the rejection: the address of the first reject output that is
  marked as change or, when that is empty, of the first reject output; without reject
  outputs, the address of the first input of the rejected transaction (a panic when it has
  no input).
\<close>

fun first_change :: "RejectOutput list \<Rightarrow> RawAddress" where
  "first_change [] = RawAddress_zero"
| "first_change (out # rest) = (if ro_Change out then ro_Address out else first_change rest)"

definition reject_change_address :: "ResponseWriter \<Rightarrow> Transaction \<Rightarrow> RawAddress option" where
  "reject_change_address w itx =
     (if length (RejectOutputs w) > 0 then
        (let changeAddress = first_change (RejectOutputs w) in
         if IsEmpty changeAddress then Some (ro_Address (RejectOutputs w ! 0))
         else Some changeAddress)
      else
        (case tx_Inputs itx of
           [] \<Rightarrow> None
         | input # rest \<Rightarrow> Some (in_Address input)))"

text \<open>
  The loop over the reject outputs: a value below the dust limit is raised to it; the
  state is the builder, \<open>AddressIndexes\<close>, \<open>rejectAddressFound\<close> and \<open>RejectAddressIndex\<close>.
\<close>

fun add_reject_outputs ::
  "'h env \<Rightarrow> RawAddress \<Rightarrow> RejectOutput list \<Rightarrow> nat \<Rightarrow> TxBuilder \<times> uint32 list \<times> bool \<times> uint32
     \<Rightarrow> TxBuilder \<times> uint32 list \<times> bool \<times> uint32" where
  "add_reject_outputs E rejectAddress [] i s = s"
| "add_reject_outputs E rejectAddress (out # rest) i
     (rejectTx, addressIndexes, rejectAddressFound, rejectAddressIndex) =
     (let v = (if ro_Value out < DustLimit E then DustLimit E else ro_Value out);
          rejectTx' = ignoring_error rejectTx
                        (AddPaymentOutput E rejectTx (ro_Address out) v (ro_Change out));
          found = (\<not> IsEmpty rejectAddress \<and> ro_Address out = rejectAddress)
      in add_reject_outputs E rejectAddress rest (Suc i)
           (rejectTx', addressIndexes @ [of_nat i], rejectAddressFound \<or> found,
            if found then of_nat i else rejectAddressIndex))"

datatype reject_response =
    ErrNoResponse
  | ErrRejected TxBuilder
  | RejectPanicked

definition RespondRejectText ::
  "'h env \<Rightarrow> ResponseWriter \<Rightarrow> Transaction \<Rightarrow> rejection_code \<Rightarrow> string \<Rightarrow> reject_response" where
  "RespondRejectText E w itx code text =
     (case RejectionsData E code of
        None \<Rightarrow> ErrNoResponse
      | Some label \<Rightarrow>
          (case (if length (RejectInputs w) > 0 then Inr (RejectInputs w)
                 else UTXOs_ForAddress E itx (rk_Address E)) of
             Inl msg \<Rightarrow> ErrNoResponse
           | Inr utxos \<Rightarrow>
               if length utxos = 0 then ErrNoResponse
               else
                 (case reject_change_address w itx of
                    None \<Rightarrow> RejectPanicked
                  | Some changeAddress \<Rightarrow>
                      (let rejectTx1 = fold (\<lambda>utxo tx. AddInputUTXO tx utxo) utxos
                                         (SetChangeAddress NewTxBuilder changeAddress);
                           (rejectTx2, addressIndexes, rejectAddressIndex) =
                             (if length (RejectOutputs w) > 0 then
                                (case add_reject_outputs E (RejectAddress w) (RejectOutputs w) 0
                                        (rejectTx1, [], False, 0) of
                                   (tx, indexes, found, index) \<Rightarrow>
                                     if \<not> found \<and> \<not> IsEmpty (RejectAddress w) then
                                       (ignoring_error tx
                                          (AddDustOutput E tx (RejectAddress w) False),
                                        indexes @ [of_nat (length (Outputs tx))], index)
                                     else (tx, indexes, index))
                              else
                                (ignoring_error rejectTx1
                                   (AddDustOutput E rejectTx1 changeAddress True), [0], 0))
                       in
                       case Serialize_Rejection E code
                              (if length text > 0 then label @ '': '' @ text else label)
                              addressIndexes rejectAddressIndex of
                         Inl msg \<Rightarrow> ErrNoResponse
                       | Inr payload \<Rightarrow>
                           (case Sign E (ignoring_error rejectTx2
                                           (AddOutput E rejectTx2 payload 0 False False)) of
                              Inl err \<Rightarrow> ErrNoResponse
                            | Inr signedTx \<Rightarrow>
                                (case Respond E signedTx of
                                   Some msg \<Rightarrow> ErrNoResponse
                                 | None \<Rightarrow> ErrRejected signedTx))))))"

text \<open>
  The transaction of \<open>RespondRejectText\<close> as it is when \<open>rejectTx.Sign\<close> is called: the same
  steps up to that call, and \<open>None\<close> where \<open>RespondRejectText\<close> returns (or panics) before it.
\<close>

definition rejection_tx ::
  "'h env \<Rightarrow> ResponseWriter \<Rightarrow> Transaction \<Rightarrow> rejection_code \<Rightarrow> string \<Rightarrow> TxBuilder option" where
  "rejection_tx E w itx code text =
     (case RejectionsData E code of
        None \<Rightarrow> None
      | Some label \<Rightarrow>
          (case (if length (RejectInputs w) > 0 then Inr (RejectInputs w)
                 else UTXOs_ForAddress E itx (rk_Address E)) of
             Inl msg \<Rightarrow> None
           | Inr utxos \<Rightarrow>
               if length utxos = 0 then None
               else
                 (case reject_change_address w itx of
                    None \<Rightarrow> None
                  | Some changeAddress \<Rightarrow>
                      (let rejectTx1 = fold (\<lambda>utxo tx. AddInputUTXO tx utxo) utxos
                                         (SetChangeAddress NewTxBuilder changeAddress);
                           (rejectTx2, addressIndexes, rejectAddressIndex) =
                             (if length (RejectOutputs w) > 0 then
                                (case add_reject_outputs E (RejectAddress w) (RejectOutputs w) 0
                                        (rejectTx1, [], False, 0) of
                                   (tx, indexes, found, index) \<Rightarrow>
                                     if \<not> found \<and> \<not> IsEmpty (RejectAddress w) then
                                       (ignoring_error tx
                                          (AddDustOutput E tx (RejectAddress w) False),
                                        indexes @ [of_nat (length (Outputs tx))], index)
                                     else (tx, indexes, index))
                              else
                                (ignoring_error rejectTx1
                                   (AddDustOutput E rejectTx1 changeAddress True), [0], 0))
                       in
                       case Serialize_Rejection E code
                              (if length text > 0 then label @ '': '' @ text else label)
                              addressIndexes rejectAddressIndex of
                         Inl msg \<Rightarrow> None
                       | Inr payload \<Rightarrow>
                           Some (ignoring_error rejectTx2
                                   (AddOutput E rejectTx2 payload 0 False False))))))"

subsection \<open>respondTransferReject\<close>

text \<open>\<open>findBoomerangIndex\<close>: the outputs that the assets name are marked as used.\<close>

fun mark_used :: "Transaction \<Rightarrow> AssetTransferField list \<Rightarrow> bool list \<Rightarrow> bool list option" where
  "mark_used transferTx [] outputUsed = Some outputUsed"
| "mark_used transferTx (assetTransfer # rest) outputUsed =
     (if ContractIndex assetTransfer = 0x0000ffff \<or> is_bitcoin assetTransfer then
        mark_used transferTx rest outputUsed
      else if unat (ContractIndex assetTransfer) \<ge> length (tx_Outputs transferTx) then None
      else mark_used transferTx rest (outputUsed[unat (ContractIndex assetTransfer) := True]))"

fun first_unused :: "Output list \<Rightarrow> bool list \<Rightarrow> RawAddress \<Rightarrow> nat \<Rightarrow> nat option" where
  "first_unused [] outputUsed contractAddress index = None"
| "first_unused (output # rest) outputUsed contractAddress index =
     (if outputUsed ! index then first_unused rest outputUsed contractAddress (Suc index)
      else if out_Address output = contractAddress then Some index
      else first_unused rest outputUsed contractAddress (Suc index))"

definition findBoomerangIndex :: "Transaction \<Rightarrow> Transfer \<Rightarrow> RawAddress \<Rightarrow> uint32" where
  "findBoomerangIndex transferTx transfer contractAddress =
     (case mark_used transferTx (Assets transfer)
             (replicate (length (tx_Outputs transferTx)) False) of
        None \<Rightarrow> 0xffffffff
      | Some outputUsed \<Rightarrow>
          (case first_unused (tx_Outputs transferTx) outputUsed contractAddress 0 of
             None \<Rightarrow> 0xffffffff
           | Some index \<Rightarrow> of_nat index))"

text \<open>The funding of the rejection: the UTXOs of this contract, without the boomerang.\<close>

fun remove_utxo :: "uint32 \<Rightarrow> UTXO list \<Rightarrow> UTXO list option" where
  "remove_utxo index [] = None"
| "remove_utxo index (utxo # rest) =
     (if utxo_Index utxo = index then Some rest
      else map_option (\<lambda>rest'. utxo # rest') (remove_utxo index rest))"

definition reject_utxos :: "'h env \<Rightarrow> Transaction \<Rightarrow> Transfer \<Rightarrow> bool \<Rightarrow> terror + UTXO list" where
  "reject_utxos E transferTx transfer started =
     and_then (wrap ''Transfer UTXOs not found'' (UTXOs_ForAddress E transferTx (rk_Address E)))
       (\<lambda>utxos.
          if started then
            (let boomerangIndex = findBoomerangIndex transferTx transfer (rk_Address E) in
             if boomerangIndex \<noteq> 0xffffffff
                \<and> out_Address (tx_Outputs transferTx ! unat boomerangIndex) = rk_Address E then
               (case remove_utxo boomerangIndex utxos of
                  None \<Rightarrow> Inl (Plain ''Boomerang output not found'')
                | Some utxos' \<Rightarrow> Inr utxos')
             else Inr utxos)
          else Inr utxos)"

fun utxo_balance :: "UTXO list \<Rightarrow> uint64 \<Rightarrow> uint64" where
  "utxo_balance [] balance = balance"
| "utxo_balance (utxo # rest) balance = utxo_balance rest (balance + utxo_Value utxo)"

text \<open>
  The refunds. Senders whose input index is out of range are passed over. For a bitcoin
  asset each sender's quantity is added to the reject output of the sender and to
  \<open>refundBalance\<close>; for another asset each sender gets a reject output of value zero.
\<close>

fun refund_senders ::
  "Transaction \<Rightarrow> QuantityIndexField list \<Rightarrow> ResponseWriter \<Rightarrow> uint64 \<Rightarrow> ResponseWriter \<times> uint64" where
  "refund_senders transferTx [] w refundBalance = (w, refundBalance)"
| "refund_senders transferTx (sender # rest) w refundBalance =
     (if unat (s_Index sender) \<ge> length (tx_Inputs transferTx) then
        refund_senders transferTx rest w refundBalance
      else
        refund_senders transferTx rest
          (AddRejectValue w (in_Address (tx_Inputs transferTx ! unat (s_Index sender)))
             (s_Quantity sender))
          (refundBalance + s_Quantity sender))"

fun notify_senders :: "Transaction \<Rightarrow> QuantityIndexField list \<Rightarrow> ResponseWriter \<Rightarrow> ResponseWriter" where
  "notify_senders transferTx [] w = w"
| "notify_senders transferTx (sender # rest) w =
     (if unat (s_Index sender) \<ge> length (tx_Inputs transferTx) then
        notify_senders transferTx rest w
      else
        notify_senders transferTx rest
          (AddRejectValue w (in_Address (tx_Inputs transferTx ! unat (s_Index sender))) 0))"

text \<open>
  The reverts of a transfer that had started. The sender loop indexes the inputs without
  the range check of the loops above: an index out of range panics.
\<close>

fun revert_senders ::
  "'h env \<Rightarrow> Transaction \<Rightarrow> AssetCode \<Rightarrow> QuantityIndexField list \<Rightarrow> (Hash20 \<rightharpoonup> 'h)
     \<Rightarrow> terror + (Hash20 \<rightharpoonup> 'h)" where
  "revert_senders E transferTx assetCode [] updatedHoldings = Inr updatedHoldings"
| "revert_senders E transferTx assetCode (sender # rest) updatedHoldings =
     (if unat (s_Index sender) \<ge> length (tx_Inputs transferTx) then Inl Panic
      else
        (let address = in_Address (tx_Inputs transferTx ! unat (s_Index sender)) in
         and_then (wrap ''get holding'' (GetHolding E assetCode address (Now E))) (\<lambda>h.
         and_then (wrap ''sender address hash'' (RawAddress_Hash (btc E) address)) (\<lambda>hash.
         and_then (wrap ''revert status'' (RevertStatus E h (tx_Hash transferTx))) (\<lambda>h'.
           revert_senders E transferTx assetCode rest (updatedHoldings(hash \<mapsto> h')))))))"

fun revert_receivers ::
  "'h env \<Rightarrow> Transaction \<Rightarrow> AssetCode \<Rightarrow> AssetReceiverField list \<Rightarrow> (Hash20 \<rightharpoonup> 'h)
     \<Rightarrow> terror + (Hash20 \<rightharpoonup> 'h)" where
  "revert_receivers E transferTx assetCode [] updatedHoldings = Inr updatedHoldings"
| "revert_receivers E transferTx assetCode (receiver # rest) updatedHoldings =
     and_then (DecodeRawAddress (btc E) (r_Address receiver)) (\<lambda>receiverAddress.
     and_then (wrap ''get holding'' (GetHolding E assetCode receiverAddress (Now E))) (\<lambda>h.
     and_then (wrap ''receiver address hash'' (RawAddress_Hash (btc E) receiverAddress)) (\<lambda>hash.
     and_then (wrap ''revert status'' (RevertStatus E h (tx_Hash transferTx))) (\<lambda>h'.
       revert_receivers E transferTx assetCode rest (updatedHoldings(hash \<mapsto> h'))))))"

type_synonym 'h refund_state = "ResponseWriter \<times> uint64 \<times> (AssetCode \<rightharpoonup> (Hash20 \<rightharpoonup> 'h))"

fun add_refunds ::
  "'h env \<Rightarrow> Transaction \<Rightarrow> bool \<Rightarrow> AssetTransferField list \<Rightarrow> 'h refund_state
     \<Rightarrow> terror + 'h refund_state" where
  "add_refunds E transferTx started [] s = Inr s"
| "add_refunds E transferTx started (assetTransfer # rest) (w, refundBalance, updates) =
     (if is_bitcoin assetTransfer then
        (case refund_senders transferTx (AssetSenders assetTransfer) w refundBalance of
           (w', refundBalance') \<Rightarrow> add_refunds E transferTx started rest (w', refundBalance', updates))
      else
        (let w' = notify_senders transferTx (AssetSenders assetTransfer) w in
         if started then
           (if length (tx_Outputs transferTx) \<le> unat (ContractIndex assetTransfer) then
              Inl (Plain ''Contract index out of range'')
            else if out_Address (tx_Outputs transferTx ! unat (ContractIndex assetTransfer))
                      \<noteq> rk_Address E then
              add_refunds E transferTx started rest (w', refundBalance, updates)
            else
              and_then (revert_senders E transferTx (AssetCode assetTransfer)
                          (AssetSenders assetTransfer) Map.empty) (\<lambda>updatedHoldings1.
              and_then (revert_receivers E transferTx (AssetCode assetTransfer)
                          (AssetReceivers assetTransfer) updatedHoldings1) (\<lambda>updatedHoldings2.
                add_refunds E transferTx started rest
                  (w', refundBalance, updates(AssetCode assetTransfer \<mapsto> updatedHoldings2)))))
         else add_refunds E transferTx started rest (w', refundBalance, updates)))"

text \<open>
  \<open>respondTransferReject\<close>. The writer is changed in place; the result is the writer that
  is handed to \<open>RespondRejectText\<close> and what that returns, or the error returned before.
\<close>

definition respondTransferReject ::
  "'h env \<Rightarrow> ResponseWriter \<Rightarrow> Transaction \<Rightarrow> Transfer \<Rightarrow> rejection_code \<Rightarrow> bool \<Rightarrow> string
     \<Rightarrow> terror + (ResponseWriter \<times> reject_response)" where
  "respondTransferReject E w transferTx transfer code started text =
     and_then (reject_utxos E transferTx transfer started) (\<lambda>utxos.
       (let balance = utxo_balance utxos 0;
            w1 = SetRejectUTXOs w utxos;
            first = firstContractOutputIndex (Assets transfer) transferTx
        in
        if first = 0xffff then Inl (Plain ''First contract output index not found'')
        else if out_Address (tx_Outputs transferTx ! unat first) \<noteq> rk_Address E then
          Inl (Plain ''This is not the first contract'')
        else
          and_then (add_refunds E transferTx started (Assets transfer) (w1, 0, Map.empty))
            (\<lambda>(w2, refundBalance, updates).
          and_then (if started then
                      (case saveHoldings E updates of
                         Some msg \<Rightarrow> Inl (Plain ''save holdings'')
                       | None \<Rightarrow> Inr ())
                    else Inr ())
            (\<lambda>u.
          and_then (if refundBalance > balance then
                      and_then (wrap ''Failed to retrieve contract'' (contract_Retrieve E))
                        (\<lambda>ct. Inr (ClearRejectOutputValues w2 (AdministrationAddress ct)))
                    else Inr w2)
            (\<lambda>w3. Inr (w3, RespondRejectText E w3 transferTx code text))))))"

subsection \<open>Quantities that the claims name\<close>

text \<open>
  An asset transfer that first-contract selection passes over: its type is bitcoin, its
  asset code is empty, or its contract index is not an output of the transaction.
\<close>

definition skipped :: "Transaction \<Rightarrow> AssetTransferField \<Rightarrow> bool" where
  "skipped itx asset \<longleftrightarrow>
     AssetType asset = ''BSV'' \<or> length (AssetCode asset) = 0
     \<or> length (tx_Outputs itx) \<le> unat (ContractIndex asset)"


text \<open>
  The refund owed to the bitcoin senders whose input exists, and the funding that a list of
  UTXOs holds, both unbounded.
\<close>

definition refund_total :: "Transaction \<Rightarrow> AssetTransferField list \<Rightarrow> nat" where
  "refund_total transferTx assets =
     sum_list (map (\<lambda>a. sum_list (map (\<lambda>s. unat (s_Quantity s))
                           (filter (\<lambda>s. unat (s_Index s) < length (tx_Inputs transferTx))
                                   (AssetSenders a))))
                   (filter is_bitcoin assets))"

definition funding :: "UTXO list \<Rightarrow> nat" where
  "funding utxos = sum_list (map (\<lambda>utxo. unat (utxo_Value utxo)) utxos)"



subsection \<open>An instance of the collaborators\<close>

text \<open>
  A simple instance of the parameters, to evaluate the handlers on concrete transfers. A
  holding is its balance, and every holding starts at 100; the locking script of an address
  is its serialization; the contract is at \<open>pkh_address 7\<close>, its administration at
  \<open>pkh_address 5\<close>; the settlement payload is the script \<open>[0x6a]\<close>.
\<close>

definition script_address :: "byte list \<Rightarrow> string + RawAddress" where
  "script_address script =
     (case script of
        [] \<Rightarrow> Inl ''unknown script template''
      | t # rest \<Rightarrow> if length rest = 20 then Inr \<lparr>scriptType = t, data = rest\<rparr>
                    else Inl ''unknown script template'')"

definition append_output :: "TxBuilder \<Rightarrow> byte list \<Rightarrow> uint64 \<Rightarrow> bool \<Rightarrow> bool \<Rightarrow> TxBuilder" where
  "append_output tx script v isChange isDust =
     tx\<lparr>TxOut := TxOut tx @ [\<lparr>PkScript = script, txout_Value = v\<rparr>],
        Outputs := Outputs tx @ [\<lparr>os_IsChange = isChange, os_IsDust = isDust\<rparr>]\<rparr>"

definition contract0 :: Contract where
  "contract0 = \<lparr>MovedTo = RawAddress_zero, FreezePeriod = 0, ContractExpiration = 0,
                AdministrationAddress = pkh_address 5, ContractFee = 0\<rparr>"

definition env0 :: "uint64 env" where
  "env0 = \<lparr>btc = bc0, rk_Address = pkh_address 7, Now = 1000, DustLimit = 546,
           FeeAddress = pkh_address 8,
           contract_Retrieve = Inr contract0,
           asset_Retrieve = (\<lambda>assetCode. Inr \<lparr>TransfersPermitted = True\<rparr>),
           asset_IsTransferable = (\<lambda>as now. None),
           GetHolding = (\<lambda>assetCode address now. Inr 100),
           AddDebit = (\<lambda>h txid quantity single now.
                         if quantity > h then Inl ErrInsufficientHoldings else Inr (h - quantity)),
           AddDeposit = (\<lambda>h txid quantity single now. Inr (h + quantity)),
           RevertStatus = (\<lambda>h txid. Inr h),
           holding_PendingBalance = (\<lambda>h. h),
           saveHoldings = (\<lambda>updates. None),
           RawAddressFromLockingScript = script_address,
           AddDustOutput = (\<lambda>tx address isChange.
                              Inr (append_output tx (RawAddress_Serialize address) 546 isChange True)),
           AddPaymentOutput = (\<lambda>tx address v isChange.
                                 Inr (append_output tx (RawAddress_Serialize address) v isChange False)),
           AddValueToOutput = (\<lambda>tx index v.
                                 if unat index < length (TxOut tx)
                                 then Inr (tx\<lparr>TxOut := (TxOut tx)[unat index :=
                                             (TxOut tx ! unat index)\<lparr>txout_Value :=
                                                txout_Value (TxOut tx ! unat index) + v\<rparr>]\<rparr>)
                                 else Inl ''Output index out of range''),
           AddOutput = (\<lambda>tx script v isChange isDust. Inr (append_output tx script v isChange isDust)),
           OutputAddress = (\<lambda>tx i. if i < length (TxOut tx) then script_address (PkScript (TxOut tx ! i))
                                     else Inl ''Output index out of range''),
           Sign = (\<lambda>tx. Inr tx),
           Serialize_Settlement = (\<lambda>settlement. Inr [0x6a]),
           is_Settlement_script = (\<lambda>script. script = [0x6a]),
           transactions_AddTx = (\<lambda>itx. None),
           Respond = (\<lambda>tx. None),
           sendToNextSettlementContract = (\<lambda>itx msg settleTx settlement fees. None),
           save_pending_transfer = (\<lambda>itx. None),
           UTXOs_ForAddress = (\<lambda>itx address.
                                 Inr (map out_UTXO (filter (\<lambda>out. out_Address out = address)
                                                           (tx_Outputs itx)))),
           RejectionsData = (\<lambda>code. Some ''rejected''),
           Serialize_Rejection = (\<lambda>code message indexes index. Inr [0x6a, 0x52])\<rparr>"

text \<open>
  Transactions with inputs from \<open>pkh_address 1\<close> and \<open>pkh_address 2\<close> and one output of
  value \<open>v\<close> to the contract.
\<close>

definition input_from :: "byte \<Rightarrow> uint64 \<Rightarrow> Input" where
  "input_from b v =
     \<lparr>in_Address = pkh_address b,
      in_UTXO = \<lparr>utxo_Hash = replicate 32 b, utxo_Index = 0,
                 utxo_LockingScript = RawAddress_Serialize (pkh_address b), utxo_Value = v\<rparr>\<rparr>"

definition output_to :: "byte \<Rightarrow> uint32 \<Rightarrow> uint64 \<Rightarrow> Output" where
  "output_to b index v =
     \<lparr>out_Address = pkh_address b,
      out_UTXO = \<lparr>utxo_Hash = replicate 32 0xaa, utxo_Index = index,
                  utxo_LockingScript = RawAddress_Serialize (pkh_address b), utxo_Value = v\<rparr>\<rparr>"

definition transfer_tx :: "uint64 \<Rightarrow> Transfer \<Rightarrow> Transaction" where
  "transfer_tx v msg =
     \<lparr>tx_Hash = replicate 32 0xaa,
      tx_Inputs = [input_from 1 10000, input_from 2 10000],
      tx_Outputs = [output_to 7 0 v],
      RejectCode = 0, MsgProto = Some msg\<rparr>"

definition sender_at :: "uint32 \<Rightarrow> uint64 \<Rightarrow> QuantityIndexField" where
  "sender_at index quantity = \<lparr>s_Index = index, s_Quantity = quantity\<rparr>"

definition receiver_at :: "byte \<Rightarrow> uint64 \<Rightarrow> AssetReceiverField" where
  "receiver_at b quantity = \<lparr>r_Address = ScriptTypePKH # replicate 20 b, r_Quantity = quantity\<rparr>"

definition token_asset ::
  "QuantityIndexField list \<Rightarrow> AssetReceiverField list \<Rightarrow> AssetTransferField" where
  "token_asset senders receivers =
     \<lparr>ContractIndex = 0, AssetType = ''SHC'', AssetCode = [1, 2, 3],
      AssetSenders = senders, AssetReceivers = receivers\<rparr>"

definition bitcoin_asset ::
  "QuantityIndexField list \<Rightarrow> AssetReceiverField list \<Rightarrow> AssetTransferField" where
  "bitcoin_asset senders receivers =
     \<lparr>ContractIndex = 0x0000ffff, AssetType = ''BSV'', AssetCode = [],
      AssetSenders = senders, AssetReceivers = receivers\<rparr>"

definition transfer_of :: "AssetTransferField list \<Rightarrow> Transfer" where
  "transfer_of assets =
     \<lparr>Assets = assets, OfferExpiry = 0, ExchangeFee = 0, ExchangeFeeAddress = []\<rparr>"

text \<open>The response writer as the handler receives it: nothing set.\<close>

definition writer0 :: ResponseWriter where
  "writer0 = \<lparr>RejectInputs = [], RejectOutputs = [], RejectAddress = RawAddress_zero\<rparr>"

section \<open>Theorems: TxTracker\<close>

text \<open>
  C10. \<open>TxTracker.Add\<close> is idempotent: adding a hash that is already tracked leaves the
  tracker unchanged, and the first-seen time recorded for it stays the one recorded first.
\<close>

theorem Add_idempotent:
  assumes "txids tracker txid = Some t"
  shows "Add now txid tracker = tracker \<and> txids (Add now txid tracker) txid = Some t"
  using assms by (simp add: Add_def)

theorem Add_idempotent_witness:
  "txids (Add 5 [1, 2] NewTxTracker) [1, 2] = Some 5
   \<and> Add 9 [1, 2] (Add 5 [1, 2] NewTxTracker) = Add 5 [1, 2] NewTxTracker
   \<and> txids (Add 9 [1, 2] (Add 5 [1, 2] NewTxTracker)) [1, 2] = Some 5"
proof -
  have h: "txids (Add 5 [1, 2] NewTxTracker) [1, 2] = Some 5"
    by (simp add: Add_def NewTxTracker_def)
  show ?thesis using h Add_idempotent [OF h, of 9] by simp
qed


lemma to_request_simps:
  "to_request [] = []"
  "to_request ((txid, alreadyHave, shouldRequest) # answers) =
     (if \<not> alreadyHave \<and> shouldRequest then txid # to_request answers else to_request answers)"
  by (simp_all add: to_request_def)

lemma to_remove_simps:
  "to_remove [] = {}"
  "to_remove ((txid, alreadyHave, shouldRequest) # answers) =
     (if alreadyHave \<or> shouldRequest then insert txid (to_remove answers) else to_remove answers)"
  by (simp_all add: to_remove_def)


lemma requested_snoc:
  "requested [] = []"
  "requested (m # msgs) = map Hash (InvList m) @ requested msgs"
  "requested (msgs @ msgs') = requested msgs @ requested msgs'"
  by (simp_all add: requested_def)

lemma Check_loop_pos:
  assumes "0 < maxInv" "length (InvList invRequest) \<le> maxInv"
    and "Check_loop AR maxInv ks tracker mp response invRequest = (response', invRequest', err, tracker', mp')"
  shows "err = None
    \<and> requested (response' @ [invRequest']) = requested (response @ [invRequest]) @ to_request (sweep_answers AR mp ks)
    \<and> txids tracker' = (\<lambda>k. if k \<in> to_remove (sweep_answers AR mp ks) then None else txids tracker k)
    \<and> length (InvList invRequest') \<le> maxInv
    \<and> (\<exists>new. response' = response @ new \<and> (\<forall>m \<in> set new. length (InvList m) = maxInv))"
  using assms
proof (induction ks arbitrary: tracker mp response invRequest)
  case Nil
  then show ?case by (simp add: to_request_simps to_remove_simps)
next
  case (Cons txid rest)
  obtain alreadyHave shouldRequest mp1 where ar: "AR mp txid = ((alreadyHave, shouldRequest), mp1)"
    by (metis prod.exhaust)
  show ?case
  proof (cases alreadyHave)
    case True
    with Cons.prems ar have
      "Check_loop AR maxInv rest (tracker\<lparr>txids := (txids tracker)(txid := None)\<rparr>) mp1 response invRequest
         = (response', invRequest', err, tracker', mp')" by simp
    from Cons.IH [OF Cons.prems(1) Cons.prems(2) this] ar True
    show ?thesis by (auto simp: to_request_simps to_remove_simps fun_eq_iff)
  next
    case False
    note nh = this
    show ?thesis
    proof (cases shouldRequest)
      case False
      with Cons.prems ar nh have
        "Check_loop AR maxInv rest tracker mp1 response invRequest
           = (response', invRequest', err, tracker', mp')" by simp
      from Cons.IH [OF Cons.prems(1) Cons.prems(2) this] ar nh False
      show ?thesis by (auto simp: to_request_simps to_remove_simps fun_eq_iff)
    next
      case True
      show ?thesis
      proof (cases "length (InvList invRequest) + 1 > maxInv")
        case False
        let ?inv = "invRequest\<lparr>InvList := InvList invRequest @ [NewInvVect InvTypeTx txid]\<rparr>"
        from False Cons.prems ar nh True have run:
          "Check_loop AR maxInv rest (tracker\<lparr>txids := (txids tracker)(txid := None)\<rparr>) mp1 response ?inv
             = (response', invRequest', err, tracker', mp')" by (simp add: AddInvVect_def Let_def)
        have len: "length (InvList ?inv) \<le> maxInv" using False by simp
        from Cons.IH [OF Cons.prems(1) len run] ar nh True
        show ?thesis by (auto simp: to_request_simps to_remove_simps fun_eq_iff requested_snoc NewInvVect_def)
      next
        case full: True
        let ?inv = "NewMsgGetData\<lparr>InvList := InvList NewMsgGetData @ [NewInvVect InvTypeTx txid]\<rparr>"
        from full Cons.prems ar nh True have run:
          "Check_loop AR maxInv rest (tracker\<lparr>txids := (txids tracker)(txid := None)\<rparr>) mp1 (response @ [invRequest]) ?inv
             = (response', invRequest', err, tracker', mp')" by (simp add: AddInvVect_def Let_def NewMsgGetData_def)
        have len: "length (InvList ?inv) \<le> maxInv" using Cons.prems(1) by (simp add: NewMsgGetData_def)
        have eq: "length (InvList invRequest) = maxInv" using full Cons.prems(2) by simp
        from Cons.IH [OF Cons.prems(1) len run] ar nh True eq
        show ?thesis by (auto simp: to_request_simps to_remove_simps fun_eq_iff requested_snoc NewInvVect_def NewMsgGetData_def)
      qed
    qed
  qed
qed


lemma Check_loop_zero:
  assumes "Check_loop AR 0 ks tracker mp response invRequest = (response', invRequest', err, tracker', mp')"
  shows "err \<noteq> None \<longleftrightarrow> to_request (sweep_answers AR mp ks) \<noteq> []"
  using assms
proof (induction ks arbitrary: tracker mp response invRequest)
  case Nil
  then show ?case by (simp add: to_request_simps)
next
  case (Cons txid rest)
  obtain alreadyHave shouldRequest mp1 where ar: "AR mp txid = ((alreadyHave, shouldRequest), mp1)"
    by (metis prod.exhaust)
  show ?case
  proof (cases "\<not> alreadyHave \<and> shouldRequest")
    case True
    with Cons.prems ar show ?thesis
      by (auto simp: AddInvVect_def Let_def to_request_simps)
  next
    case False
    with Cons.prems ar obtain tracker1 where
      "Check_loop AR 0 rest tracker1 mp1 response invRequest = (response', invRequest', err, tracker', mp')"
      by (auto split: if_splits)
    from Cons.IH [OF this] ar False show ?thesis
      by (auto simp: to_request_simps)
  qed
qed

lemma map_fst_sweep_answers: "map fst (sweep_answers AR mp ks) = ks"
  by (induction ks arbitrary: mp) (auto split: prod.splits)

lemma in_to_request:
  "txid \<in> set (to_request answers) \<longleftrightarrow> (txid, False, True) \<in> set answers"
  by (induction answers) (auto simp: to_request_simps split: if_splits)

lemma set_to_request:
  "set (to_request answers) = {txid. (txid, False, True) \<in> set answers}"
  using in_to_request by blast

lemma to_remove_iff:
  "txid \<in> to_remove answers \<longleftrightarrow> (\<exists>h r. (txid, h, r) \<in> set answers \<and> (h \<or> r))"
  by (auto simp: to_remove_def image_iff)

lemma answers_unique:
  assumes "distinct ks" "(txid, a) \<in> set (sweep_answers AR mp ks)" "(txid, b) \<in> set (sweep_answers AR mp ks)"
  shows "a = b"
proof -
  have "distinct (map fst (sweep_answers AR mp ks))" using assms(1) by (simp add: map_fst_sweep_answers)
  then show ?thesis using assms(2,3) by (meson eq_key_imp_eq_value)
qed

text \<open>
  C9. One sweep of \<open>Check\<close> over the tracked hashes, in any order in which the map is
  ranged over. With a positive item limit the sweep returns no error and, for every hash:
  if the mempool answers that the transaction is already present, the entry is removed and
  the hash is in no get-data message; if the mempool designates this node as requester, the
  hash is in an emitted get-data message and the entry is removed; otherwise the entry stays
  tracked with its time and nothing is requested. No emitted message is empty or exceeds the
  limit, and every message but the last is full: a message is emitted when it has reached the
  limit and a new one is started. An item that does not fit into the new message either
  (possible only when the limit is zero) produces an error.
\<close>

theorem Check_sweep:
  assumes "range_order (txids tracker) ks"
    and "Check AddRequest maxInv ks tracker mempool = ((response, err), tracker', mempool')"
  shows "(0 < maxInv \<longrightarrow>
            err = None
          \<and> (\<forall>(txid, alreadyHave, shouldRequest) \<in> set (sweep_answers AddRequest mempool ks).
                (alreadyHave \<longrightarrow> txids tracker' txid = None \<and> txid \<notin> set (requested response))
              \<and> (\<not> alreadyHave \<and> shouldRequest \<longrightarrow>
                    txid \<in> set (requested response) \<and> txids tracker' txid = None)
              \<and> (\<not> alreadyHave \<and> \<not> shouldRequest \<longrightarrow>
                    txids tracker' txid = txids tracker txid \<and> txids tracker' txid \<noteq> None
                  \<and> txid \<notin> set (requested response)))
          \<and> (\<forall>m \<in> set response. 0 < length (InvList m) \<and> length (InvList m) \<le> maxInv)
          \<and> (\<forall>m \<in> set (butlast response). length (InvList m) = maxInv))
       \<and> (maxInv = 0 \<longrightarrow>
            (err \<noteq> None \<longleftrightarrow> (\<exists>txid. (txid, False, True) \<in> set (sweep_answers AddRequest mempool ks))))"
proof (intro conjI impI)
  obtain response0 invRequest0 err0 where
    loop: "Check_loop AddRequest maxInv ks tracker mempool [] NewMsgGetData
             = (response0, invRequest0, err0, tracker', mempool')"
    and fin: "err = err0"
      "err0 = None \<Longrightarrow> response = (if length (InvList invRequest0) > 0 then response0 @ [invRequest0] else response0)"
    using assms(2) by (auto simp: Check_def split: prod.splits option.splits)
  let ?ans = "sweep_answers AddRequest mempool ks"
  have dist: "distinct ks" and dom: "set ks = dom (txids tracker)"
    using assms(1) by (simp_all add: range_order_def)
  {
    assume "maxInv = 0"
    with loop have "err0 \<noteq> None \<longleftrightarrow> to_request ?ans \<noteq> []"
      using Check_loop_zero by metis
    also have "\<dots> \<longleftrightarrow> set (to_request ?ans) \<noteq> {}" by simp
    also have "\<dots> \<longleftrightarrow> (\<exists>txid. (txid, False, True) \<in> set ?ans)"
      unfolding set_to_request by blast
    finally show "err \<noteq> None \<longleftrightarrow> (\<exists>txid. (txid, False, True) \<in> set ?ans)"
      using fin(1) by simp
  }
  assume pos: "0 < maxInv"
  have len0: "length (InvList NewMsgGetData) \<le> maxInv" by (simp add: NewMsgGetData_def)
  from Check_loop_pos [OF pos len0 loop] obtain new where
    e0: "err0 = None"
    and req: "requested (response0 @ [invRequest0]) = to_request ?ans"
    and tr: "txids tracker' = (\<lambda>k. if k \<in> to_remove ?ans then None else txids tracker k)"
    and le: "length (InvList invRequest0) \<le> maxInv"
    and new: "response0 = new" "\<forall>m \<in> set new. length (InvList m) = maxInv"
    by (auto simp: requested_snoc NewMsgGetData_def)
  show "err = None" using fin(1) e0 by simp
  have resp: "response = (if length (InvList invRequest0) > 0 then response0 @ [invRequest0] else response0)"
    using fin(2) e0 by simp
  have req': "set (requested response) = {txid. (txid, False, True) \<in> set ?ans}"
    using req resp set_to_request [of ?ans] by (auto simp: requested_snoc split: if_splits)
  show "\<forall>m \<in> set response. 0 < length (InvList m) \<and> length (InvList m) \<le> maxInv"
    using resp new le pos by (auto split: if_splits)
  show "\<forall>m \<in> set (butlast response). length (InvList m) = maxInv"
    using resp new by (auto split: if_splits dest: in_set_butlastD)
  show "\<forall>(txid, alreadyHave, shouldRequest) \<in> set ?ans.
                (alreadyHave \<longrightarrow> txids tracker' txid = None \<and> txid \<notin> set (requested response))
              \<and> (\<not> alreadyHave \<and> shouldRequest \<longrightarrow>
                    txid \<in> set (requested response) \<and> txids tracker' txid = None)
              \<and> (\<not> alreadyHave \<and> \<not> shouldRequest \<longrightarrow>
                    txids tracker' txid = txids tracker txid \<and> txids tracker' txid \<noteq> None
                  \<and> txid \<notin> set (requested response))"
  proof (clarify, intro conjI impI)
    fix txid h r assume mem: "(txid, h, r) \<in> set ?ans"
    have uniq: "\<And>h' r'. (txid, h', r') \<in> set ?ans \<Longrightarrow> h' = h \<and> r' = r"
      using answers_unique [OF dist _ mem] by blast
    have tracked: "txids tracker txid \<noteq> None"
    proof -
      have "txid \<in> set (map fst ?ans)" using mem by force
      then show ?thesis using dom by (auto simp: map_fst_sweep_answers)
    qed
    { assume h
      then show "txids tracker' txid = None" using mem tr to_remove_iff by auto
      show "txid \<notin> set (requested response)" using req' uniq \<open>h\<close> by auto }
    { assume "\<not> h \<and> r"
      then show "txid \<in> set (requested response)" using req' mem by auto
      show "txids tracker' txid = None" using mem tr to_remove_iff \<open>\<not> h \<and> r\<close> by auto }
    { assume a: "\<not> h \<and> \<not> r"
      have "txid \<notin> to_remove ?ans" using uniq a by (auto simp: to_remove_iff)
      then show "txids tracker' txid = txids tracker txid" using tr by simp
      then show "txids tracker' txid \<noteq> None" using tracked by simp
      show "txid \<notin> set (requested response)" using req' uniq a by auto }
  qed
qed


theorem Check_sweep_witness:
  "range_order (txids \<lparr>txids = [[1] \<mapsto> 10, [2] \<mapsto> 20, [3] \<mapsto> 30, [4] \<mapsto> 40]\<rparr>) [[1], [2], [3], [4]]
   \<and> Check (\<lambda>mp txid. ((txid = [1], txid \<noteq> [3]), Suc mp)) 1 [[1], [2], [3], [4]]
        \<lparr>txids = [[1] \<mapsto> 10, [2] \<mapsto> 20, [3] \<mapsto> 30, [4] \<mapsto> 40]\<rparr> (0::nat)
      = (([\<lparr>InvList = [\<lparr>Type = InvTypeTx, Hash = [2]\<rparr>]\<rparr>,
           \<lparr>InvList = [\<lparr>Type = InvTypeTx, Hash = [4]\<rparr>]\<rparr>], None),
         \<lparr>txids = [[3] \<mapsto> 30]\<rparr>, 4)
   \<and> sweep_answers (\<lambda>mp txid. ((txid = [1], txid \<noteq> [3]), Suc mp)) (0::nat) [[1], [2], [3], [4]]
      = [([1], True, True), ([2], False, True), ([3], False, False), ([4], False, True)]
   \<and> Check (\<lambda>mp txid. ((False, True), Suc mp)) 0 [[1]] \<lparr>txids = [[1] \<mapsto> 10]\<rparr> (0::nat)
      = (([\<lparr>InvList = []\<rparr>], Some ''Failed to add tx to get data request''),
         \<lparr>txids = [[1] \<mapsto> 10]\<rparr>, 1)"
proof -
  let ?T = "\<lparr>txids = [[1::byte] \<mapsto> 10::nat, [2] \<mapsto> 20, [3] \<mapsto> 30, [4] \<mapsto> 40]\<rparr>"
  let ?AR = "\<lambda>(mp::nat) (txid::Hash32). ((txid = [1], txid \<noteq> [3]), Suc mp)"
  have ro: "range_order (txids ?T) [[1], [2], [3], [4]]"
    by (auto simp: range_order_def)
  have run: "Check ?AR 1 [[1], [2], [3], [4]] ?T 0
      = (([\<lparr>InvList = [\<lparr>Type = InvTypeTx, Hash = [2]\<rparr>]\<rparr>,
           \<lparr>InvList = [\<lparr>Type = InvTypeTx, Hash = [4]\<rparr>]\<rparr>], None),
         \<lparr>txids = [[3] \<mapsto> 30]\<rparr>, 4)"
    by (simp add: Check_def AddInvVect_def NewInvVect_def NewMsgGetData_def fun_eq_iff)
  have ro0: "range_order (txids \<lparr>txids = [[1::byte] \<mapsto> 10::nat]\<rparr>) [[1]]"
    by (auto simp: range_order_def)
  have run0: "Check (\<lambda>(mp::nat) (txid::Hash32). ((False, True), Suc mp)) 0 [[1]] \<lparr>txids = [[1] \<mapsto> 10]\<rparr> 0
      = (([\<lparr>InvList = []\<rparr>], Some ''Failed to add tx to get data request''),
         \<lparr>txids = [[1] \<mapsto> 10]\<rparr>, 1)"
    by (simp add: Check_def AddInvVect_def NewInvVect_def NewMsgGetData_def)
  show ?thesis
    using ro run ro0 run0 Check_sweep [OF ro run] Check_sweep [OF ro0 run0] by simp
qed
section \<open>Theorems: holding serialization\<close>

lemma and_then_simps [simp]:
  "and_then (Inl e) f = Inl e"
  "and_then (Inr x) f = f x"
  by (simp_all add: and_then_def)

lemma length_le_bytes [simp]: "length (le_bytes n v) = n"
  by (induction n arbitrary: v) auto

lemma le_value_le_bytes: "le_value (le_bytes n v) = v mod 256 ^ n"
proof (induction n arbitrary: v)
  case 0
  then show ?case by simp
next
  case (Suc n)
  have "unat (of_nat (v mod 256) :: byte) = v mod 256"
    by (simp add: unat_of_nat)
  then show ?case using Suc
    by (simp add: mod_mult2_eq)
qed

lemma binary_Read_append:
  "length bs = n \<Longrightarrow> binary_Read n (bs @ rest) = Inr (bs, rest)"
  by (auto simp: binary_Read_def)

lemma Reader_Read_append:
  "length bs = n \<Longrightarrow> Reader_Read n (bs @ rest) = Inr (bs, rest)"
  by (auto simp: Reader_Read_def)

lemma read_uint64_put: "read_uint64 (put_uint64 w @ rest) = Inr (w, rest)"
proof -
  have "unat w < 256 ^ 8" using unsigned_less [of w, where 'a = nat] by simp
  then show ?thesis
    by (simp add: read_uint64_def put_uint64_def binary_Read_append le_value_le_bytes)
qed

lemma read_uint32_put: "read_uint32 (put_uint32 w @ rest) = Inr (w, rest)"
proof -
  have "unat w < 256 ^ 4" using unsigned_less [of w, where 'a = nat] by simp
  then show ?thesis
    by (simp add: read_uint32_def put_uint32_def binary_Read_append le_value_le_bytes)
qed

lemma read_uint8_byte: "read_uint8 (b # rest) = Inr (b, rest)"
  by (simp add: read_uint8_def binary_Read_def)

lemma read_bool_put: "read_bool (put_bool b @ rest) = Inr (b, rest)"
  by (simp add: read_bool_def put_bool_def binary_Read_def)

lemma RawAddress_roundtrip:
  assumes "switch_consts_distinct bc" "wf_address ra"
  shows "RawAddress_Deserialize bc (RawAddress_Serialize ra @ rest) = Inr (ra, rest)"
proof -
  have len: "length (data ra) = ScriptHashLength" using assms(2) by (simp add: wf_address_def)
  consider "scriptType ra = ScriptTypePKH" | "scriptType ra = ScriptTypeSH" | "scriptType ra = ScriptTypeRPH"
    using assms(2) by (auto simp: wf_address_def)
  then show ?thesis
  proof cases
    case 1
    then show ?thesis using len
      by (simp add: RawAddress_Deserialize_def RawAddress_Serialize_def ReadByte_def
          Reader_Read_append SetPKH_def)
  next
    case 2
    moreover have "ScriptTypeSH \<noteq> AddressTypeMainPKH bc" "ScriptTypeSH \<noteq> AddressTypeTestPKH bc"
      "ScriptTypeSH \<noteq> ScriptTypePKH"
      using assms(1) by (auto simp: switch_consts_distinct_def)
    ultimately show ?thesis using len
      by (simp add: RawAddress_Deserialize_def RawAddress_Serialize_def ReadByte_def
          Reader_Read_append SetSH_def)
  next
    case 3
    moreover have "ScriptTypeRPH \<noteq> AddressTypeMainPKH bc" "ScriptTypeRPH \<noteq> AddressTypeTestPKH bc"
      "ScriptTypeRPH \<noteq> ScriptTypePKH"
      "ScriptTypeRPH \<noteq> AddressTypeMainSH bc" "ScriptTypeRPH \<noteq> AddressTypeTestSH bc"
      "ScriptTypeRPH \<noteq> ScriptTypeSH"
      "ScriptTypeRPH \<noteq> AddressTypeMainMultiPKH bc" "ScriptTypeRPH \<noteq> AddressTypeTestMultiPKH bc"
      "ScriptTypeRPH \<noteq> ScriptTypeMultiPKH"
      using assms(1) by (auto simp: switch_consts_distinct_def)
    ultimately show ?thesis using len
      by (simp add: RawAddress_Deserialize_def RawAddress_Serialize_def ReadByte_def
          Reader_Read_append SetRPH_def)
  qed
qed

lemma HoldingStatus_roundtrip:
  assumes "length (TxId hs) = TxIdSize"
  shows "deserializeHoldingStatus (serializeHoldingStatus hs @ rest) = Inr (hs, rest)"
  using assms
  by (simp add: deserializeHoldingStatus_def serializeHoldingStatus_def read_uint8_byte
      DeserializeTimestamp_def DeserializeTxId_def read_uint64_put Reader_Read_append read_bool_put)

lemma deserializeStatuses_roundtrip:
  assumes "\<forall>k \<in> set ks. \<exists>hs. m k = Some hs \<and> TxId hs = k \<and> length k = TxIdSize"
  shows "deserializeStatuses (length ks)
           (concat (map (\<lambda>k. case m k of Some hs \<Rightarrow> serializeHoldingStatus hs | None \<Rightarrow> []) ks) @ rest) acc
         = Inr (\<lambda>k. if k \<in> set ks then m k else acc k, rest)"
  using assms
proof (induction ks arbitrary: acc)
  case Nil
  then show ?case by simp
next
  case (Cons k ks)
  then obtain hs where hs: "m k = Some hs" "TxId hs = k" "length k = TxIdSize" by auto
  have "deserializeStatuses (length (k # ks))
           (concat (map (\<lambda>k. case m k of Some hs \<Rightarrow> serializeHoldingStatus hs | None \<Rightarrow> []) (k # ks)) @ rest) acc
        = deserializeStatuses (length ks)
           (concat (map (\<lambda>k. case m k of Some hs \<Rightarrow> serializeHoldingStatus hs | None \<Rightarrow> []) ks) @ rest)
           (acc(k \<mapsto> hs))"
    using hs by (simp add: HoldingStatus_roundtrip)
  also have "\<dots> = Inr (\<lambda>k'. if k' \<in> set ks then m k' else (acc(k \<mapsto> hs)) k', rest)"
    using Cons by simp
  also have "(\<lambda>k'. if k' \<in> set ks then m k' else (acc(k \<mapsto> hs)) k')
           = (\<lambda>k'. if k' \<in> set (k # ks) then m k' else acc k')"
    using hs by (auto simp: fun_eq_iff)
  finally show ?case .
qed

lemma deserializeHolding_serializeHolding:
  assumes "switch_consts_distinct bc" "wf_address (Address h)" "keyed (HoldingStatuses h)"
    and "range_order (HoldingStatuses h) ks" "length ks < 2 ^ 32"
  shows "deserializeHolding bc (serializeHolding ks h) = Inr h"
proof -
  have cnt: "unat (of_nat (length ks) :: uint32) = length ks"
    using assms(5) by (simp add: unat_of_nat)
  have keys: "\<forall>k \<in> set ks. \<exists>hs. HoldingStatuses h k = Some hs \<and> TxId hs = k \<and> length k = TxIdSize"
    using assms(3,4) by (auto simp: keyed_def range_order_def)
  have m: "(\<lambda>k. if k \<in> set ks then HoldingStatuses h k else Map.empty k) = HoldingStatuses h"
    using assms(4) by (auto simp: range_order_def fun_eq_iff domIff)
  have st: "deserializeStatuses (length ks)
           (concat (map (\<lambda>k. case HoldingStatuses h k of Some hs \<Rightarrow> serializeHoldingStatus hs | None \<Rightarrow> []) ks)) Map.empty
         = Inr (HoldingStatuses h, [])"
    using deserializeStatuses_roundtrip [OF keys, of "[]" Map.empty] m by simp
  show ?thesis
    by (simp add: deserializeHolding_def serializeHolding_def read_uint8_byte
        RawAddress_roundtrip [OF assms(1,2)] read_uint64_put DeserializeTimestamp_def
        read_uint32_put cnt st)
qed


lemma bc0_distinct: "switch_consts_distinct bc0"
  by (simp add: switch_consts_distinct_def bc0_def ScriptTypePKH_def ScriptTypeSH_def
      ScriptTypeMultiPKH_def ScriptTypeRPH_def)

lemma txid1_neq_txid2: "txid1 \<noteq> txid2"
  by (simp add: txid1_def txid2_def)

lemma holding0_wf:
  "wf_address (Address holding0)" "keyed (HoldingStatuses holding0)"
  "range_order (HoldingStatuses holding0) [txid1, txid2]"
  "range_order (HoldingStatuses holding0) [txid2, txid1]"
  using txid1_neq_txid2
  by (auto simp: holding0_def pkh_address_def wf_address_def ScriptHashLength_def keyed_def
      range_order_def status1_def status2_def TxIdSize_def txid1_def txid2_def
      split: if_splits)

text \<open>
  C3, as amended. For every holding whose address is a public-key-hash, script-hash or
  R-puzzle-hash address, whose statuses are stored under their own 32-byte transaction ids
  and number fewer than \<open>2^32\<close>: deserializing a serialization of the holding, made in
  whichever order the statuses were ranged over, returns exactly that holding. Serializing
  the result again in the same order therefore gives the same bytes. The order of the status
  records is the order in which the map is ranged over; it is not fixed by the holding.
\<close>

theorem serializeHolding_roundtrip:
  assumes "switch_consts_distinct bc" "wf_address (Address h)" "keyed (HoldingStatuses h)"
    and "range_order (HoldingStatuses h) ks" "length ks < 2 ^ 32"
  shows "deserializeHolding bc (serializeHolding ks h) = Inr h"
  using assms by (rule deserializeHolding_serializeHolding)

theorem serializeHolding_roundtrip_witness:
  "switch_consts_distinct bc0 \<and> wf_address (Address holding0) \<and> keyed (HoldingStatuses holding0)
   \<and> range_order (HoldingStatuses holding0) [txid2, txid1] \<and> length [txid2, txid1] < 2 ^ 32
   \<and> deserializeHolding bc0 (serializeHolding [txid2, txid1] holding0) = Inr holding0"
proof -
  have len: "length [txid2, txid1] < 2 ^ 32" by simp
  show ?thesis
    using bc0_distinct holding0_wf(1,2,4) len
      serializeHolding_roundtrip [OF bc0_distinct holding0_wf(1,2,4) len]
    by simp
qed

text \<open>
  Counterexample to C3 as stated: the holding \<open>holding0\<close> has two statuses. Serialized with
  the statuses ranged over as \<open>txid1, txid2\<close> and deserialized, it is \<open>holding0\<close> again; a
  second serialization that ranges over the map as \<open>txid2, txid1\<close> gives different bytes.
\<close>

theorem serializeHolding_order_counterexample:
  "range_order (HoldingStatuses holding0) [txid1, txid2]
   \<and> deserializeHolding bc0 (serializeHolding [txid1, txid2] holding0) = Inr holding0
   \<and> range_order (HoldingStatuses holding0) [txid2, txid1]
   \<and> serializeHolding [txid2, txid1] holding0 \<noteq> serializeHolding [txid1, txid2] holding0"
proof -
  have len: "length [txid1, txid2] < 2 ^ 32" by simp
  have de: "deserializeHolding bc0 (serializeHolding [txid1, txid2] holding0) = Inr holding0"
    by (rule deserializeHolding_serializeHolding [OF bc0_distinct holding0_wf(1,2,3) len])
  have ne: "serializeHolding [txid2, txid1] holding0 \<noteq> serializeHolding [txid1, txid2] holding0"
    using txid1_neq_txid2
    by (simp add: serializeHolding_def holding0_def serializeHoldingStatus_def
        status1_def status2_def)
  show ?thesis using holding0_wf(3,4) de ne by simp
qed

text \<open>
  C8. Deserializing bytes whose first byte, the version, is not 0 fails with the
  unknown-version error, whatever follows the version byte; no holding is returned.
\<close>

theorem deserializeHolding_unknown_version:
  assumes "version \<noteq> 0"
  shows "deserializeHolding bc (version # rest) = Inl (ErrUnknownVersion version)"
  using assms by (simp add: deserializeHolding_def read_uint8_byte)



theorem deserializeHolding_unknown_version_witness:
  "(1 :: byte) \<noteq> 0 \<and> deserializeHolding bc0 (1 # serializeHolding [txid1, txid2] holding0)
     = Inl (ErrUnknownVersion 1)"
proof -
  have h: "(1 :: byte) \<noteq> 0" by simp
  show ?thesis using h deserializeHolding_unknown_version [OF h] by simp
qed

section \<open>Theorems: holdings cache\<close>

lemma holding1_wf:
  "wf_address (Address holding1)" "keyed (HoldingStatuses holding1)"
  "range_order (HoldingStatuses holding1) [txid1]"
  by (auto simp: holding1_def pkh_address_def wf_address_def ScriptHashLength_def keyed_def
      range_order_def status1_def TxIdSize_def txid1_def split: if_splits)

lemma deserialize_holding1:
  "deserializeHolding bc0 (serializeHolding [txid1] holding1) = Inr holding1"
  by (rule deserializeHolding_serializeHolding [OF bc0_distinct holding1_wf]) simp

lemma pkh_address_Hash: "RawAddress_Hash bc (pkh_address b) = Inr (replicate 20 b)"
  by (simp add: RawAddress_Hash_def pkh_address_def NewHash20_def Hash20Size_def)

lemma fetched1_result: "fst fetched1 = Inr 1"
  by (simp add: fetched1_def Fetch_def pkh_address_Hash cache_asset_def cache_contract_def
      empty_store_def set_cache_asset_def buildStoragePath_def db1_def deserialize_holding1
      load_holding_def copyHolding_def Let_def)

lemma fetched1_cached:
  "cached (snd fetched1) (replicate 20 7) [1, 2, 3] (replicate 20 9) = Some holding1"
  by (simp add: fetched1_def Fetch_def pkh_address_Hash cache_asset_def cache_contract_def
      empty_store_def set_cache_asset_def buildStoragePath_def db1_def deserialize_holding1
      load_holding_def copyHolding_def Let_def)
    (simp add: cached_def deref_def holding1_def fun_eq_iff cache_asset_def cache_contract_def)

lemma fetched1_mutated:
  "map_option (\<lambda>st. (cache st = cache (snd fetched1),
                      cached st (replicate 20 7) [1, 2, 3] (replicate 20 9)))
     (set_status_Amount (snd fetched1) 1 txid1 99)
   = Some (True, Some (holding1\<lparr>HoldingStatuses := [txid1 \<mapsto> status1\<lparr>Amount := 99\<rparr>]\<rparr>))"
  by (simp add: fetched1_def Fetch_def pkh_address_Hash cache_asset_def cache_contract_def
      empty_store_def set_cache_asset_def buildStoragePath_def db1_def deserialize_holding1
      load_holding_def copyHolding_def Let_def)
    (simp add: cached_def deref_def holding1_def fun_eq_iff cache_asset_def cache_contract_def
      set_status_Amount_def update_status_def)


text \<open>
  C4 fails on the code. \<open>Fetch\<close> returns the copy made by \<open>copyHolding\<close> (object 1; the
  cached object is 0), and the cache holds \<open>holding1\<close>, whose status \<open>txid1\<close> has amount 5.
  Assigning 99 to the amount of that status through the returned copy changes the holding
  held by the cache, although \<open>Save\<close> was not called and the cache map itself is unchanged:
  the copy's map holds the same status pointers as the cached holding's map.
\<close>

theorem Fetch_copy_shares_statuses:
  "fst fetched1 = Inr 1
   \<and> cached (snd fetched1) (replicate 20 7) [1, 2, 3] (replicate 20 9) = Some holding1
   \<and> map_option (\<lambda>st. (cache st = cache (snd fetched1),
                        cached st (replicate 20 7) [1, 2, 3] (replicate 20 9)))
       (set_status_Amount (snd fetched1) 1 txid1 99)
     = Some (True, Some (holding1\<lparr>HoldingStatuses := [txid1 \<mapsto> status1\<lparr>Amount := 99\<rparr>]\<rparr>))"
  using fetched1_result fetched1_cached fetched1_mutated by simp

section \<open>Theorems: transfers\<close>

subsection \<open>First contract, results and the bitcoin balance\<close>

lemma firstContractOutputIndex_skip:
  "\<forall>b \<in> set pre. skipped itx b \<Longrightarrow>
     firstContractOutputIndex (pre @ rest) itx = firstContractOutputIndex rest itx"
  by (induction pre) (auto simp: skipped_def)

lemma firstContractOutputIndex_none:
  "\<forall>b \<in> set assets. skipped itx b \<Longrightarrow> firstContractOutputIndex assets itx = 0xffff"
  by (induction assets) (auto simp: skipped_def)

lemma plain_simps [simp]:
  "plain (Inl msg) = Inl (Plain msg)" "plain (Inr x) = Inr x"
  by (simp_all add: plain_def)

lemma wrap_simps [simp]:
  "wrap msg' (Inl e) = Inl (Plain msg')" "wrap msg' (Inr y) = Inr y"
  by (simp_all add: wrap_def)

lemma and_then_Inr_iff:
  "and_then r f = Inr y \<longleftrightarrow> (\<exists>x. r = Inr x \<and> f x = Inr y)"
  by (cases r) auto


lemma plain_not_Panic [simp]: "plain r \<noteq> Inl Panic"
  by (cases r) simp_all

lemma wrap_not_Panic [simp]: "wrap msg r' \<noteq> Inl Panic"
  by (cases r') simp_all








lemma env0_simps [simp]:
  "btc env0 = bc0" "rk_Address env0 = pkh_address 7" "Now env0 = 1000" "DustLimit env0 = 546"
  "contract_Retrieve env0 = Inr contract0"
  "asset_Retrieve env0 = (\<lambda>assetCode. Inr \<lparr>TransfersPermitted = True\<rparr>)"
  "asset_IsTransferable env0 = (\<lambda>as now. None)"
  "GetHolding env0 = (\<lambda>assetCode address now. Inr 100)"
  "AddDebit env0 = (\<lambda>h txid quantity single now.
                         if quantity > h then Inl ErrInsufficientHoldings else Inr (h - quantity))"
  "AddDeposit env0 = (\<lambda>h txid quantity single now. Inr (h + quantity))"
  "holding_PendingBalance env0 = (\<lambda>h. h)"
  "saveHoldings env0 = (\<lambda>updates. None)"
  "RawAddressFromLockingScript env0 = script_address"
  "AddDustOutput env0 = (\<lambda>tx address isChange.
                              Inr (append_output tx (RawAddress_Serialize address) 546 isChange True))"
  "AddPaymentOutput env0 = (\<lambda>tx address v isChange.
                                 Inr (append_output tx (RawAddress_Serialize address) v isChange False))"
  "AddOutput env0 = (\<lambda>tx script v isChange isDust. Inr (append_output tx script v isChange isDust))"
  "Sign env0 = (\<lambda>tx. Inr tx)"
  "Serialize_Settlement env0 = (\<lambda>settlement. Inr [0x6a])"
  "is_Settlement_script env0 = (\<lambda>script. script = [0x6a])"
  "transactions_AddTx env0 = (\<lambda>itx. None)"
  "Respond env0 = (\<lambda>tx. None)"
  by (simp_all add: env0_def)

lemma pkh_address_simps [simp]:
  "RawAddress_Hash c (pkh_address b) = Inr (replicate 20 b)"
  "DecodeRawAddress c (ScriptTypePKH # replicate 20 b) = Inr (pkh_address b)"
  "IsEmpty (pkh_address b) = False"
  "RawAddress_Serialize (pkh_address b) = ScriptTypePKH # replicate 20 b"
  "script_address (ScriptTypePKH # replicate 20 b) = Inr (pkh_address b)"
  "pkh_address b = pkh_address b' \<longleftrightarrow> b = b'"
  by (simp_all add: RawAddress_Hash_def pkh_address_def NewHash20_def Hash20Size_def
      DecodeRawAddress_def SetPKH_def ScriptHashLength_def IsEmpty_def RawAddress_Serialize_def
      script_address_def)

lemma more_simps [simp]:
  "data (pkh_address b) = replicate 20 b"
  "scriptType (pkh_address b) = ScriptTypePKH"
  "script_address [0x6a] = Inl ''unknown script template''"
  "data RawAddress_zero = []"
  by (simp_all add: pkh_address_def script_address_def RawAddress_zero_def)

subsection \<open>Evaluation of the handlers on concrete transfers\<close>

lemma env0_more_simps [simp]:
  "UTXOs_ForAddress env0 = (\<lambda>itx address.
      Inr (map out_UTXO (filter (\<lambda>out. out_Address out = address) (tx_Outputs itx))))"
  "AddValueToOutput env0 = (\<lambda>tx index v.
      if unat index < length (TxOut tx)
      then Inr (tx\<lparr>TxOut := (TxOut tx)[unat index :=
                  (TxOut tx ! unat index)\<lparr>txout_Value := txout_Value (TxOut tx ! unat index) + v\<rparr>]\<rparr>)
      else Inl ''Output index out of range'')"
  "OutputAddress env0 = (\<lambda>tx i. if i < length (TxOut tx) then script_address (PkScript (TxOut tx ! i))
                                 else Inl ''Output index out of range'')"
  "FeeAddress env0 = pkh_address 8"
  "RejectionsData env0 = (\<lambda>code. Some ''rejected'')"
  "Serialize_Rejection env0 = (\<lambda>code message indexes index. Inr [0x6a, 0x52])"
  by (simp_all add: env0_def)

lemmas eval_defs = TransferRequest_def compose_settlement_def transfer_tx_def transfer_of_def
  token_asset_def bitcoin_asset_def receiver_at_def sender_at_def input_from_def output_to_def
  contract0_def is_bitcoin_def buildSettlementTx_def addBitcoinSettlements_def
  addSettlementData_def NewTxBuilder_def SetChangeAddress_def AddInput_def append_output_def
  script_addresses_def IsEmpty_def Let_def finish_transfer_def is_settled_def

lemmas reject_defs = respondTransferReject_def reject_utxos_def SetRejectUTXOs_def
  AddRejectValue_def writer0_def transfer_tx_def transfer_of_def token_asset_def
  bitcoin_asset_def receiver_at_def sender_at_def input_from_def output_to_def contract0_def
  is_bitcoin_def IsEmpty_def Let_def refund_total_def funding_def

lemmas response_defs = rejection_tx_def reject_change_address_def AddInputUTXO_def
  NewTxBuilder_def SetChangeAddress_def ignoring_error_def append_output_def output_to_def
  transfer_tx_def input_from_def IsEmpty_def Let_def

subsection \<open>The rejection that the handler returns\<close>





subsection \<open>Bitcoin that the contract output does not fund\<close>




subsection \<open>Quantities that do not balance\<close>

text \<open>
  C2 fails on the code. The contract receives a transfer of the asset \<open>[1, 2, 3]\<close> in which
  the sender at input 0 sends 5 and the receiver gets 3, or gets 7. \<open>addSettlementData\<close>
  returns an error without a rejection code, and \<open>TransferRequest\<close> returns the error
  \<open>Failed to add settlement data\<close>: no rejection is sent. The same transfer with 5 for the
  receiver is settled.
\<close>

theorem TransferRequest_unbalanced:
  "TransferRequest env0
     (transfer_tx 2000 (transfer_of [token_asset [sender_at 0 5] [receiver_at 2 3]]))
     = InternalError ''Failed to add settlement data''
   \<and> TransferRequest env0
       (transfer_tx 2000 (transfer_of [token_asset [sender_at 0 5] [receiver_at 2 7]]))
     = InternalError ''Failed to add settlement data''
   \<and> is_settled (TransferRequest env0
       (transfer_tx 2000 (transfer_of [token_asset [sender_at 0 5] [receiver_at 2 5]])))"
  by (simp add: eval_defs)

subsection \<open>First-contract selection\<close>

text \<open>
  C5, as amended. First-contract selection passes over an asset transfer when its type is
  bitcoin, or its asset code is empty, or its contract index is not an output of the
  transaction, and returns the contract index of the first entry that remains. If none
  remains the result is \<open>0xffff\<close>, and then \<open>TransferRequest\<close> returns the error
  \<open>Transfer first contract not found\<close>: the transfer is neither settled nor rejected.
\<close>

theorem firstContractOutputIndex_selection:
  assumes "\<forall>b \<in> set pre. skipped itx b"
  shows "(\<not> skipped itx a \<longrightarrow> firstContractOutputIndex (pre @ a # rest) itx = ContractIndex a)
       \<and> firstContractOutputIndex pre itx = 0xffff
       \<and> (MsgProto itx = Some msg \<and> Assets msg = pre \<longrightarrow>
            TransferRequest E itx = InternalError ''Transfer first contract not found'')"
proof -
  have none: "firstContractOutputIndex pre itx = 0xffff"
    using assms by (rule firstContractOutputIndex_none)
  have "firstContractOutputIndex (pre @ a # rest) itx = firstContractOutputIndex (a # rest) itx"
    using assms by (rule firstContractOutputIndex_skip)
  then have sel: "\<not> skipped itx a \<longrightarrow> firstContractOutputIndex (pre @ a # rest) itx = ContractIndex a"
    by (simp add: skipped_def not_le)
  have "TransferRequest E itx = InternalError ''Transfer first contract not found''"
    if "MsgProto itx = Some msg" "Assets msg = pre"
    using that none by (simp add: TransferRequest_def compose_settlement_def)
  with none sel show ?thesis by blast
qed

theorem firstContractOutputIndex_selection_witness:
  "skipped (transfer_tx 5000 (transfer_of [bitcoin_asset [sender_at 0 10] [receiver_at 2 10]]))
     (bitcoin_asset [sender_at 0 10] [receiver_at 2 10])
   \<and> \<not> skipped (transfer_tx 5000 (transfer_of [bitcoin_asset [sender_at 0 10] [receiver_at 2 10]]))
         (token_asset [sender_at 0 5] [receiver_at 2 5])
   \<and> firstContractOutputIndex
        ([bitcoin_asset [sender_at 0 10] [receiver_at 2 10]]
           @ token_asset [sender_at 0 5] [receiver_at 2 5] # [])
        (transfer_tx 5000 (transfer_of [bitcoin_asset [sender_at 0 10] [receiver_at 2 10]])) = 0
   \<and> firstContractOutputIndex [bitcoin_asset [sender_at 0 10] [receiver_at 2 10]]
        (transfer_tx 5000 (transfer_of [bitcoin_asset [sender_at 0 10] [receiver_at 2 10]]))
        = 0xffff
   \<and> TransferRequest env0
        (transfer_tx 5000 (transfer_of [bitcoin_asset [sender_at 0 10] [receiver_at 2 10]]))
        = InternalError ''Transfer first contract not found''"
proof -
  let ?b = "bitcoin_asset [sender_at 0 10] [receiver_at 2 10]"
  let ?a = "token_asset [sender_at 0 5] [receiver_at 2 5]"
  let ?itx = "transfer_tx 5000 (transfer_of [?b])"
  have sk: "\<forall>b \<in> set [?b]. skipped ?itx b"
    by (simp add: skipped_def bitcoin_asset_def)
  have nsk: "\<not> skipped ?itx ?a"
    by (simp add: skipped_def token_asset_def transfer_tx_def)
  have msg: "MsgProto ?itx = Some (transfer_of [?b])" "Assets (transfer_of [?b]) = [?b]"
    by (simp_all add: transfer_tx_def transfer_of_def)
  have idx: "ContractIndex ?a = 0" by (simp add: token_asset_def)
  from firstContractOutputIndex_selection [OF sk, of ?a "[]" "transfer_of [?b]" env0]
    sk nsk msg idx
  show ?thesis by simp
qed

text \<open>
  Counterexample to C5 as stated. An entry of type \<open>SHC\<close> whose contract index 3 is not an
  output is passed over, and the index of the entry after it is returned; an entry of type
  \<open>BSV\<close> with a code is passed over; and a transfer of bitcoin alone is not settled: the
  handler returns an error.
\<close>

theorem firstContractOutputIndex_counterexample:
  "firstContractOutputIndex
     [\<lparr>ContractIndex = 3, AssetType = ''SHC'', AssetCode = [1, 2, 3],
       AssetSenders = [], AssetReceivers = []\<rparr>,
      token_asset [sender_at 0 5] [receiver_at 2 5]]
     (transfer_tx 2000 (transfer_of [])) = 0
   \<and> firstContractOutputIndex
       [\<lparr>ContractIndex = 0, AssetType = ''BSV'', AssetCode = [9],
         AssetSenders = [], AssetReceivers = []\<rparr>]
       (transfer_tx 2000 (transfer_of [])) = 0xffff
   \<and> TransferRequest env0
        (transfer_tx 7000 (transfer_of [bitcoin_asset [sender_at 1 20] [receiver_at 2 20]]))
        = InternalError ''Transfer first contract not found''
   \<and> \<not> is_settled (TransferRequest env0
        (transfer_tx 7000 (transfer_of [bitcoin_asset [sender_at 1 20] [receiver_at 2 20]])))"
  by (simp add: eval_defs)

subsection \<open>A party named twice\<close>

















subsection \<open>Refunds on rejection\<close>

lemma refund_senders_total:
  "refund_senders transferTx senders w refundBalance = (w', refundBalance') \<Longrightarrow>
     refundBalance' = refundBalance
       + of_nat (sum_list (map (\<lambda>s. unat (s_Quantity s))
                   (filter (\<lambda>s. unat (s_Index s) < length (tx_Inputs transferTx)) senders)))"
proof (induction senders arbitrary: w refundBalance)
  case Nil
  then show ?case by simp
next
  case (Cons s senders)
  show ?case
  proof (cases "unat (s_Index s) < length (tx_Inputs transferTx)")
    case True
    with Cons.prems have
      "refund_senders transferTx senders
         (AddRejectValue w (in_Address (tx_Inputs transferTx ! unat (s_Index s))) (s_Quantity s))
         (refundBalance + s_Quantity s) = (w', refundBalance')"
      by simp
    from Cons.IH [OF this] True show ?thesis by (simp add: add.assoc)
  next
    case False
    with Cons.prems have "refund_senders transferTx senders w refundBalance = (w', refundBalance')"
      by simp
    from Cons.IH [OF this] False show ?thesis by simp
  qed
qed

lemma add_refunds_total:
  "add_refunds E transferTx started assets (w, refundBalance, updates) = Inr (w', refundBalance', updates')
     \<Longrightarrow> refundBalance' = refundBalance + of_nat (refund_total transferTx assets)"
proof (induction assets arbitrary: w refundBalance updates)
  case Nil
  then show ?case by (simp add: refund_total_def)
next
  case (Cons a assets)
  show ?case
  proof (cases "is_bitcoin a")
    case True
    obtain w1 rb1 where rs: "refund_senders transferTx (AssetSenders a) w refundBalance = (w1, rb1)"
      by (cases "refund_senders transferTx (AssetSenders a) w refundBalance") auto
    with Cons.prems True have
      "add_refunds E transferTx started assets (w1, rb1, updates) = Inr (w', refundBalance', updates')"
      by simp
    from Cons.IH [OF this] refund_senders_total [OF rs] True show ?thesis
      by (simp add: refund_total_def add.assoc)
  next
    case False
    with Cons.prems obtain w1 u1 where
      "add_refunds E transferTx started assets (w1, refundBalance, u1) = Inr (w', refundBalance', updates')"
      by (auto simp: Let_def and_then_Inr_iff split: if_splits)
    from Cons.IH [OF this] False show ?thesis by (simp add: refund_total_def)
  qed
qed

lemma utxo_balance_funding: "utxo_balance utxos balance = balance + of_nat (funding utxos)"
  by (induction utxos arbitrary: balance) (auto simp: funding_def add.assoc)

lemma shortfall_in_64_bits:
  assumes "f < r" "r < 2 ^ 64"
  shows "(of_nat r :: uint64) > of_nat f"
proof -
  have "unat (of_nat r :: uint64) = r" "unat (of_nat f :: uint64) = f"
    using assms by (simp_all add: unat_of_nat)
  with assms(1) show ?thesis by (simp add: word_less_nat_alt)
qed

lemma first_change_cleared:
  "changeAddress \<in> set (map ro_Address outs) \<Longrightarrow>
   first_change (map (\<lambda>out. out\<lparr>ro_Value := 0, ro_Change := (ro_Address out = changeAddress)\<rparr>) outs)
     = changeAddress"
  by (induction outs) auto

lemma first_change_appended:
  "changeAddress \<notin> set (map ro_Address outs) \<Longrightarrow>
   first_change (map (\<lambda>out. out\<lparr>ro_Value := 0, ro_Change := (ro_Address out = changeAddress)\<rparr>) outs
                 @ [\<lparr>ro_Address = changeAddress, ro_Value = 0, ro_Change = True\<rparr>])
     = changeAddress"
  by (induction outs) auto

lemma ClearRejectOutputValues_cleared:
  "\<forall>out \<in> set (RejectOutputs (ClearRejectOutputValues w changeAddress)). ro_Value out = 0"
  by (auto simp: ClearRejectOutputValues_def Let_def)

lemma ClearRejectOutputValues_change:
  assumes "\<not> IsEmpty changeAddress"
  shows "reject_change_address (ClearRejectOutputValues w changeAddress) itx = Some changeAddress"
proof (cases "changeAddress \<in> set (map ro_Address (RejectOutputs w))")
  case True
  then have "RejectOutputs w \<noteq> []" by auto
  with True assms show ?thesis
    using first_change_cleared [OF True]
    by (simp add: reject_change_address_def ClearRejectOutputValues_def Let_def)
next
  case False
  with assms show ?thesis
    using first_change_appended [OF False]
    by (simp add: reject_change_address_def ClearRejectOutputValues_def Let_def)
qed

text \<open>
  Where the refund owed to the bitcoin senders is less than \<open>2^64\<close>, the sum that the code
  keeps is that refund, and a shortfall against the funding is found: the writer that is
  handed to \<open>RespondRejectText\<close> is the cleared one.
\<close>

lemma respondTransferReject_clears:
  assumes utxos: "reject_utxos E transferTx transfer started = Inr utxos"
    and first: "firstContractOutputIndex (Assets transfer) transferTx \<noteq> 0xffff"
      "out_Address (tx_Outputs transferTx
          ! unat (firstContractOutputIndex (Assets transfer) transferTx)) = rk_Address E"
    and refunds: "add_refunds E transferTx started (Assets transfer)
                    (SetRejectUTXOs w utxos, 0, Map.empty) = Inr (w2, refundBalance, updates)"
    and saved: "started \<longrightarrow> saveHoldings E updates = None"
    and short: "funding utxos < refund_total transferTx (Assets transfer)"
      "refund_total transferTx (Assets transfer) < 2 ^ 64"
    and ct: "contract_Retrieve E = Inr ct"
  shows "respondTransferReject E w transferTx transfer code started text
           = Inr (ClearRejectOutputValues w2 (AdministrationAddress ct),
                  RespondRejectText E (ClearRejectOutputValues w2 (AdministrationAddress ct))
                    transferTx code text)"
proof -
  have "refundBalance = of_nat (refund_total transferTx (Assets transfer))"
    using add_refunds_total [OF refunds] by simp
  with short have "refundBalance > utxo_balance utxos 0"
    by (simp add: utxo_balance_funding shortfall_in_64_bits)
  with utxos first refunds saved ct show ?thesis
    by (simp add: respondTransferReject_def Let_def)
qed

text \<open>
  C7 fails on the code. The contract holds 2000 and the two bitcoin senders of a rejected
  transfer are owed \<open>2^63\<close> each, so the refund owed is \<open>2^64\<close>, more than the funding. The
  sum that \<open>respondTransferReject\<close> keeps in 64 bits is zero, which is not more than 2000:
  \<open>ClearRejectOutputValues\<close> is not called, the reject outputs keep their values, and the
  change of the rejection goes to the first sender \<open>pkh_address 1\<close>, not to the
  administration address \<open>pkh_address 5\<close>. The transaction that \<open>RespondRejectText\<close> builds
  from this writer pays \<open>2^63\<close> to each sender.
\<close>

theorem respondTransferReject_refund_overflow:
  "funding [out_UTXO (output_to 7 0 2000)] = 2000
   \<and> refund_total
        (transfer_tx 2000 (transfer_of [token_asset [sender_at 0 5] [receiver_at 2 5],
            bitcoin_asset [sender_at 0 0x8000000000000000, sender_at 1 0x8000000000000000]
                          [receiver_at 2 3000]]))
        [token_asset [sender_at 0 5] [receiver_at 2 5],
         bitcoin_asset [sender_at 0 0x8000000000000000, sender_at 1 0x8000000000000000]
                       [receiver_at 2 3000]] = 2 ^ 64
   \<and> respondTransferReject env0 writer0
        (transfer_tx 2000 (transfer_of [token_asset [sender_at 0 5] [receiver_at 2 5],
            bitcoin_asset [sender_at 0 0x8000000000000000, sender_at 1 0x8000000000000000]
                          [receiver_at 2 3000]]))
        (transfer_of [token_asset [sender_at 0 5] [receiver_at 2 5],
            bitcoin_asset [sender_at 0 0x8000000000000000, sender_at 1 0x8000000000000000]
                          [receiver_at 2 3000]])
        RejectionsMsgMalformed False ''''
      = Inr (\<lparr>RejectInputs = [out_UTXO (output_to 7 0 2000)],
              RejectOutputs =
                [\<lparr>ro_Address = pkh_address 1, ro_Value = 0x8000000000000000, ro_Change = False\<rparr>,
                 \<lparr>ro_Address = pkh_address 2, ro_Value = 0x8000000000000000, ro_Change = False\<rparr>],
              RejectAddress = RawAddress_zero\<rparr>,
             RespondRejectText env0
               \<lparr>RejectInputs = [out_UTXO (output_to 7 0 2000)],
                RejectOutputs =
                  [\<lparr>ro_Address = pkh_address 1, ro_Value = 0x8000000000000000, ro_Change = False\<rparr>,
                   \<lparr>ro_Address = pkh_address 2, ro_Value = 0x8000000000000000, ro_Change = False\<rparr>],
                RejectAddress = RawAddress_zero\<rparr>
               (transfer_tx 2000 (transfer_of [token_asset [sender_at 0 5] [receiver_at 2 5],
                  bitcoin_asset [sender_at 0 0x8000000000000000, sender_at 1 0x8000000000000000]
                                [receiver_at 2 3000]]))
               RejectionsMsgMalformed '''')
   \<and> reject_change_address
        \<lparr>RejectInputs = [out_UTXO (output_to 7 0 2000)],
         RejectOutputs =
           [\<lparr>ro_Address = pkh_address 1, ro_Value = 0x8000000000000000, ro_Change = False\<rparr>,
            \<lparr>ro_Address = pkh_address 2, ro_Value = 0x8000000000000000, ro_Change = False\<rparr>],
         RejectAddress = RawAddress_zero\<rparr>
        (transfer_tx 2000 (transfer_of [token_asset [sender_at 0 5] [receiver_at 2 5],
            bitcoin_asset [sender_at 0 0x8000000000000000, sender_at 1 0x8000000000000000]
                          [receiver_at 2 3000]]))
      = Some (pkh_address 1)
   \<and> map_option (\<lambda>tx. map txout_Value (TxOut tx))
        (rejection_tx env0
           \<lparr>RejectInputs = [out_UTXO (output_to 7 0 2000)],
            RejectOutputs =
              [\<lparr>ro_Address = pkh_address 1, ro_Value = 0x8000000000000000, ro_Change = False\<rparr>,
               \<lparr>ro_Address = pkh_address 2, ro_Value = 0x8000000000000000, ro_Change = False\<rparr>],
            RejectAddress = RawAddress_zero\<rparr>
           (transfer_tx 2000 (transfer_of [token_asset [sender_at 0 5] [receiver_at 2 5],
               bitcoin_asset [sender_at 0 0x8000000000000000, sender_at 1 0x8000000000000000]
                             [receiver_at 2 3000]]))
           RejectionsMsgMalformed '''')
      = Some [0x8000000000000000, 0x8000000000000000, 0]"
  by (simp add: reject_defs response_defs)


end
